theory Spec2Isabelle
  imports Main
begin

section \<open>The model graph read by the types generator\<close>

text \<open>
  The generator of \<^verbatim>\<open>pkg/generators/golang/types_generator.go\<close> reads the analysed
  model through the \<^verbatim>\<open>concepts\<close> package and asks three calculators for names,
  packages and type references. A name is a list of lowercase words.
\<close>

type_synonym Name = "string list"

text \<open>
  Modelled from the spec: the \<^verbatim>\<open>concepts\<close> package (Type, Attribute, EnumValue,
  Version, Service, Model) is not among the source files. Section 3 makes a type one
  of scalar, enum, struct, list and map, a struct possibly marked class, and an
  attribute a name, a referenced type, a doc text and a link flag.
\<close>

datatype TypeKind = EnumType | ListType | MapType | ScalarType | StructType

record EnumValue =
  evName :: Name
  evTypeName :: Name
  evDoc :: string

type_synonym VersionRef = "Name \<times> Name"

datatype Type =
  Type (tName: Name) (tKind: TypeKind) (IsClass: bool) (tDoc: string)
       (tOwner: VersionRef) (Attributes: "Attribute list")
       (Values: "EnumValue list") (Element: "Type option")
and Attribute =
  Attribute (aName: Name) (aType: Type) (Link: bool) (aDoc: string)

definition IsEnum :: "Type \<Rightarrow> bool" where
  "IsEnum t = (tKind t = EnumType)"

definition IsList :: "Type \<Rightarrow> bool" where
  "IsList t = (tKind t = ListType)"

definition IsMap :: "Type \<Rightarrow> bool" where
  "IsMap t = (tKind t = MapType)"

definition IsScalar :: "Type \<Rightarrow> bool" where
  "IsScalar t = (tKind t = ScalarType)"

definition IsStruct :: "Type \<Rightarrow> bool" where
  "IsStruct t = (tKind t = StructType)"

record Version =
  vService :: Name
  vName :: Name
  vTypes :: "Type list"

record Service =
  sName :: Name
  sVersions :: "Version list"

record Model =
  Services :: "Service list"

text \<open>
  Modelled from the spec: the reporter package is not among the source files. Section
  4.8 makes it a sink of records whose errors are counted; here it is the log of the
  errors reported so far, each the format string and its arguments.
\<close>

datatype ReportArg = AttributeArg Attribute | TypeArg Type | TextArg string

type_synonym Reporter = "(string \<times> ReportArg list) list"

definition Errorf :: "Reporter \<Rightarrow> string \<Rightarrow> ReportArg list \<Rightarrow> Reporter" where
  "Errorf r fmt args = r @ [(fmt, args)]"

text \<open>
  The calculators are declared outside the file at hand, so their methods are taken as
  they are called: functions of the generator's configuration. A type reference is a
  pointer in the source (\<^verbatim>\<open>*TypeReference\<close>), hence an option here, and every calculator
  method may report to the shared reporter, which is threaded through. Of a
  \<^verbatim>\<open>TypeReference\<close> only the text it renders to is kept; \<^verbatim>\<open>&TypeReference{}\<close> is the
  empty one.
\<close>

record TypeReference =
  refText :: string

definition emptyTypeReference :: TypeReference where
  "emptyTypeReference = \<lparr>refText = []\<rparr>"

record TypesCalculator =
  ValueReference :: "Type \<Rightarrow> Reporter \<Rightarrow> TypeReference option \<times> Reporter"
  NullableReference :: "Type \<Rightarrow> Reporter \<Rightarrow> TypeReference option \<times> Reporter"
  ListReference :: "Type \<Rightarrow> Reporter \<Rightarrow> TypeReference option \<times> Reporter"
  ZeroValue :: "Type \<Rightarrow> Reporter \<Rightarrow> string \<times> Reporter"
  EnumName :: "Type \<Rightarrow> Reporter \<Rightarrow> string \<times> Reporter"

record NamesCalculator =
  Public :: "Name \<Rightarrow> string"
  Private :: "Name \<Rightarrow> string"
  File :: "Name \<Rightarrow> string"

record PackagesCalculator =
  VersionPackage :: "VersionRef \<Rightarrow> string"

section \<open>The builder and the generator\<close>

text \<open>
  \<^verbatim>\<open>TypesGeneratorBuilder\<close>: every field but the output is a pointer, nil until its
  setter is called; the output is a string, empty until set.
\<close>

record TypesGeneratorBuilder =
  b_reporter :: "Reporter option"
  b_model :: "Model option"
  b_output :: string
  b_packages :: "PackagesCalculator option"
  b_names :: "NamesCalculator option"
  b_types :: "TypesCalculator option"

definition NewTypesGenerator :: TypesGeneratorBuilder where
  "NewTypesGenerator =
     \<lparr>b_reporter = None, b_model = None, b_output = [], b_packages = None,
      b_names = None, b_types = None\<rparr>"

text \<open>
  The emitted source is kept as the list of the declarations it holds, in the order of
  the templates; comments are left out. A method declaration names its receiver, its
  name and its result types; the getter of a scalar attribute also holds the zero
  literal its body returns, and the \<^verbatim>\<open>Empty\<close> method of a struct the conjuncts that the
  template puts between \<^verbatim>\<open>o == nil || (\<close> and the closing \<^verbatim>\<open>true)\<close>:
  \<^verbatim>\<open>o.f == nil\<close>, \<^verbatim>\<open>o.f.Len() == 0\<close> and \<^verbatim>\<open>len(o.f) == 0\<close>.
\<close>

datatype GoType = Literal string | Reference "TypeReference option"

datatype EmptyTerm = FieldIsNil string | ListLenIsZero string | LenIsZero string

datatype Decl =
  Const string string
| TypedConst string string string
| TypeAlias string string
| StructDecl string "(string \<times> GoType) list"
| Method string string "GoType list"
| ValueGetter string string GoType string
| EmptyMethod string "EmptyTerm list"

record Buffer =
  bPackage :: string
  bFile :: string
  bImports :: "(string \<times> string) list"
  bCode :: "Decl list"

record TypesGenerator =
  reporter :: Reporter
  errors :: int
  model :: Model
  output' :: string
  packages :: PackagesCalculator
  names :: NamesCalculator
  types :: TypesCalculator
  buffer :: "Buffer option"

text \<open>
  \<^verbatim>\<open>Build\<close> returns the pair of its named results \<^verbatim>\<open>(generator, err)\<close>: the first check
  that fails sets the error and returns with the generator still nil.
\<close>

definition Build :: "TypesGeneratorBuilder \<Rightarrow> TypesGenerator option \<times> string option" where
  "Build b =
     (if b_reporter b = None then (None, Some ''reporter is mandatory'')
      else if b_model b = None then (None, Some ''model is mandatory'')
      else if b_output b = [] then (None, Some ''output is mandatory'')
      else if b_packages b = None then (None, Some ''packages calculator is mandatory'')
      else if b_names b = None then (None, Some ''names calculator is mandatory'')
      else if b_types b = None then (None, Some ''types calculator is mandatory'')
      else
        (Some \<lparr>reporter = the (b_reporter b), errors = 0, model = the (b_model b),
               output' = b_output b, packages = the (b_packages b),
               names = the (b_names b), types = the (b_types b), buffer = None\<rparr>,
         None))"

section \<open>The helpers bound to the templates\<close>

definition fieldName :: "TypesGenerator \<Rightarrow> Attribute \<Rightarrow> string" where
  "fieldName g attribute = Private (names g) (aName attribute)"

definition getterName :: "TypesGenerator \<Rightarrow> Attribute \<Rightarrow> string" where
  "getterName g attribute = Public (names g) (aName attribute)"

definition objectName :: "TypesGenerator \<Rightarrow> Type \<Rightarrow> string" where
  "objectName g typ = Public (names g) (tName typ)"

text \<open>
  \<^verbatim>\<open>getterType\<close> and \<^verbatim>\<open>fieldType\<close>: a switch over the kind of the attribute's type, the
  first case that holds deciding; no case leaves \<^verbatim>\<open>ref\<close> nil. A nil \<^verbatim>\<open>ref\<close>, also one
  that a calculator returned, is reported and replaced by a pointer to the empty
  reference. The result is the pointer \<^verbatim>\<open>*TypeReference\<close> of the source, and the generator
  comes back with the reporter as the calls left it.
\<close>

definition getterTypeMessage :: string where
  "getterTypeMessage =
     ''Don't know how to calculate getter type for attribute '%s'' @ [CHR 0x27]"

definition fieldTypeMessage :: string where
  "fieldTypeMessage =
     ''Don't know how to calculate field type for attribute '%s'' @ [CHR 0x27]"

definition orEmpty ::
  "string \<Rightarrow> Attribute \<Rightarrow> TypeReference option \<times> Reporter \<Rightarrow> TypeReference option \<times> Reporter" where
  "orEmpty fmt attribute res =
     (case res of
        (None, r) \<Rightarrow> (Some emptyTypeReference, Errorf r fmt [AttributeArg attribute])
      | (Some ref, r) \<Rightarrow> (Some ref, r))"

definition getterRef :: "TypesGenerator \<Rightarrow> Attribute \<Rightarrow> TypeReference option \<times> Reporter" where
  "getterRef g attribute =
     (let typ = aType attribute in
      if IsScalar typ then ValueReference (types g) typ (reporter g)
      else if IsStruct typ then NullableReference (types g) typ (reporter g)
      else if IsList typ then
        (if Link attribute then ListReference (types g) typ (reporter g)
         else NullableReference (types g) typ (reporter g))
      else if IsMap typ then NullableReference (types g) typ (reporter g)
      else (None, reporter g))"

definition getterType :: "TypesGenerator \<Rightarrow> Attribute \<Rightarrow> TypeReference option \<times> TypesGenerator" where
  "getterType g attribute =
     (case orEmpty getterTypeMessage attribute
             (getterRef g attribute) of
        (ref, r) \<Rightarrow> (ref, g\<lparr>reporter := r\<rparr>))"

definition fieldRef :: "TypesGenerator \<Rightarrow> Attribute \<Rightarrow> TypeReference option \<times> Reporter" where
  "fieldRef g attribute =
     (let typ = aType attribute in
      if IsScalar typ then NullableReference (types g) typ (reporter g)
      else if IsStruct typ then NullableReference (types g) typ (reporter g)
      else if IsList typ then
        (if Link attribute then ListReference (types g) typ (reporter g)
         else NullableReference (types g) typ (reporter g))
      else if IsMap typ then NullableReference (types g) typ (reporter g)
      else (None, reporter g))"

definition fieldType :: "TypesGenerator \<Rightarrow> Attribute \<Rightarrow> TypeReference option \<times> TypesGenerator" where
  "fieldType g attribute =
     (case orEmpty fieldTypeMessage attribute
             (fieldRef g attribute) of
        (ref, r) \<Rightarrow> (ref, g\<lparr>reporter := r\<rparr>))"

text \<open>
  Modelled from the spec: the packages \<^verbatim>\<open>names\<close> and \<^verbatim>\<open>nomenclator\<close> are not among the
  source files. Section 4.1 makes \<^verbatim>\<open>Cat\<close> the concatenation of word lists, section 6 names
  the files \<^verbatim>\<open><name>_type\<close> and \<^verbatim>\<open>metadata_type\<close>, section 4.6.1 the container
  \<^verbatim>\<open><Name>List\<close>, and section 4.2 the wire rendering of a name: its words joined by
  underscores.
\<close>

definition Cat :: "Name \<Rightarrow> Name \<Rightarrow> Name" where
  "Cat a b = a @ b"

definition nomenclator_List :: Name where
  "nomenclator_List = [''list'']"

definition nomenclator_Metadata :: Name where
  "nomenclator_Metadata = [''metadata'']"

definition nomenclator_Type :: Name where
  "nomenclator_Type = [''type'']"

fun joinWords :: "string \<Rightarrow> Name \<Rightarrow> string" where
  "joinWords sep [] = []"
| "joinWords sep [w] = w"
| "joinWords sep (w # v # ws) = w @ sep @ joinWords sep (v # ws)"

definition Name_String :: "Name \<Rightarrow> string" where
  "Name_String n = joinWords ''_'' n"

definition metadataFile :: "TypesGenerator \<Rightarrow> string" where
  "metadataFile g = File (names g) (Cat nomenclator_Metadata nomenclator_Type)"

definition typeFile :: "TypesGenerator \<Rightarrow> Type \<Rightarrow> string" where
  "typeFile g typ = File (names g) (Cat (tName typ) nomenclator_Type)"

definition valueName :: "TypesGenerator \<Rightarrow> EnumValue \<Rightarrow> string" where
  "valueName g v = Public (names g) (Cat (evTypeName v) (evName v))"

definition valueTag :: "TypesGenerator \<Rightarrow> EnumValue \<Rightarrow> string" where
  "valueTag g v = Name_String (evName v)"

definition listName :: "TypesGenerator \<Rightarrow> Type \<Rightarrow> string" where
  "listName g typ = Public (names g) (Cat (tName typ) nomenclator_List)"

section \<open>The templates\<close>

text \<open>
  Modelled from the spec: the \<^verbatim>\<open>Buffer\<close> is not among the source files. Section 4.5: a
  buffer is built for one package and file, \<^verbatim>\<open>Import\<close> records an import, \<^verbatim>\<open>Emit\<close>
  appends the expansion of a template, and \<^verbatim>\<open>Write\<close> flushes it to disk. Building and
  writing can fail, and what decides that is outside the generator: both are functions of
  a state \<^typ>\<open>'w\<close> of the outside world, which they return as they left it.
\<close>

record 'w BufferOps =
  Buffer_Build :: "string \<Rightarrow> string \<Rightarrow> 'w \<Rightarrow> (string + Buffer) \<times> 'w"
  Buffer_Write :: "Buffer \<Rightarrow> 'w \<Rightarrow> string option \<times> 'w"

definition Import :: "TypesGenerator \<Rightarrow> string \<Rightarrow> string \<Rightarrow> TypesGenerator" where
  "Import g path alias =
     g\<lparr>buffer := map_option (\<lambda>b. b\<lparr>bImports := bImports b @ [(path, alias)]\<rparr>) (buffer g)\<rparr>"

definition Emit :: "TypesGenerator \<Rightarrow> Decl list \<Rightarrow> TypesGenerator" where
  "Emit g decls =
     g\<lparr>buffer := map_option (\<lambda>b. b\<lparr>bCode := bCode b @ decls\<rparr>) (buffer g)\<rparr>"

text \<open>The template of \<^verbatim>\<open>generateVersionMetadataTypeSource\<close>.\<close>

definition metadataDecls :: "Decl list" where
  "metadataDecls =
     [StructDecl ''Metadata'' [(''serverVersion'', Literal ''*string'')],
      Method ''*Metadata'' ''ServerVersion'' [Literal ''string''],
      Method ''*Metadata'' ''GetServerVersion'' [Literal ''string'', Literal ''bool'']]"

definition generateVersionMetadataTypeSource :: "TypesGenerator \<Rightarrow> TypesGenerator" where
  "generateVersionMetadataTypeSource g = Emit g metadataDecls"

text \<open>The template of \<^verbatim>\<open>generateEnumTypeSource\<close>: the alias and one constant a value.\<close>

definition enumDecls :: "TypesGenerator \<Rightarrow> Type \<Rightarrow> Decl list \<times> TypesGenerator" where
  "enumDecls g typ =
     (case EnumName (types g) typ (reporter g) of
        (enumName, r) \<Rightarrow>
          (TypeAlias enumName ''string'' #
           map (\<lambda>v. TypedConst (valueName g v) enumName (valueTag g v)) (Values typ),
           g\<lparr>reporter := r\<rparr>))"

definition generateEnumTypeSource :: "TypesGenerator \<Rightarrow> Type \<Rightarrow> TypesGenerator" where
  "generateEnumTypeSource g typ = (case enumDecls g typ of (ds, g1) \<Rightarrow> Emit g1 ds)"

text \<open>
  The template of \<^verbatim>\<open>generateStructTypeSource\<close>, piece by piece in its order. The fields
  of the struct call \<^verbatim>\<open>fieldType\<close> once an attribute, the getters \<^verbatim>\<open>getterType\<close> once an
  attribute, and a getter that is not of a struct, list or map calls \<^verbatim>\<open>zeroValue\<close>.
\<close>

definition kindConsts :: "string \<Rightarrow> Decl list" where
  "kindConsts n =
     [Const (n @ ''Kind'') n, Const (n @ ''LinkKind'') (n @ ''Link''),
      Const (n @ ''NilKind'') (n @ ''Nil'')]"

fun fieldDecls ::
  "TypesGenerator \<Rightarrow> Attribute list \<Rightarrow> (string \<times> GoType) list \<times> TypesGenerator" where
  "fieldDecls g [] = ([], g)"
| "fieldDecls g (a # as) =
     (case fieldType g a of
        (ref, g1) \<Rightarrow>
          (case fieldDecls g1 as of
             (fs, g2) \<Rightarrow> ((fieldName g a, Reference ref) # fs, g2)))"

definition emptyTerm :: "TypesGenerator \<Rightarrow> Attribute \<Rightarrow> EmptyTerm list" where
  "emptyTerm g a =
     (if IsScalar (aType a) then [FieldIsNil (fieldName g a)]
      else if IsList (aType a) then
        (if Link a then [ListLenIsZero (fieldName g a)] else [LenIsZero (fieldName g a)])
      else if IsMap (aType a) then [LenIsZero (fieldName g a)]
      else [])"

definition emptyTerms :: "TypesGenerator \<Rightarrow> Type \<Rightarrow> EmptyTerm list" where
  "emptyTerms g typ =
     (if IsClass typ then [FieldIsNil ''id''] else []) @
     concat (map (emptyTerm g) (Attributes typ))"

definition getterDecls ::
  "TypesGenerator \<Rightarrow> string \<Rightarrow> Attribute \<Rightarrow> Decl list \<times> TypesGenerator" where
  "getterDecls g recv a =
     (case getterType g a of
        (ref, g1) \<Rightarrow>
          (let probe = Method recv (''Get'' @ getterName g a) [Reference ref, Literal ''bool''] in
           if IsStruct (aType a) \<or> IsList (aType a) \<or> IsMap (aType a)
           then ([Method recv (getterName g a) [Reference ref], probe], g1)
           else
             (case ZeroValue (types g1) (aType a) (reporter g1) of
                (zero, r) \<Rightarrow>
                  ([ValueGetter recv (getterName g a) (Reference ref) zero, probe],
                   g1\<lparr>reporter := r\<rparr>))))"

fun gettersDecls ::
  "TypesGenerator \<Rightarrow> string \<Rightarrow> Attribute list \<Rightarrow> Decl list \<times> TypesGenerator" where
  "gettersDecls g recv [] = ([], g)"
| "gettersDecls g recv (a # as) =
     (case getterDecls g recv a of
        (ds, g1) \<Rightarrow>
          (case gettersDecls g1 recv as of
             (es, g2) \<Rightarrow> (ds @ es, g2)))"

text \<open>Lines 295 to 442 of the template: the constants, the struct and its methods.\<close>

definition objectDecls :: "TypesGenerator \<Rightarrow> Type \<Rightarrow> Decl list \<times> TypesGenerator" where
  "objectDecls g typ =
     (let n = objectName g typ; recv = ''*'' @ objectName g typ in
      case fieldDecls g (Attributes typ) of
        (fs, g1) \<Rightarrow>
          (case gettersDecls g1 recv (Attributes typ) of
             (gs, g2) \<Rightarrow>
               ((if IsClass typ then kindConsts n else []) @
                [StructDecl n
                   ((if IsClass typ
                     then [(''id'', Literal ''*string''), (''href'', Literal ''*string''),
                           (''link'', Literal ''bool'')]
                     else []) @ fs)] @
                (if IsClass typ
                 then [Method recv ''Kind'' [Literal ''string''],
                       Method recv ''ID'' [Literal ''string''],
                       Method recv ''GetID'' [Literal ''string'', Literal ''bool''],
                       Method recv ''Link'' [Literal ''bool''],
                       Method recv ''HREF'' [Literal ''string''],
                       Method recv ''GetHREF'' [Literal ''string'', Literal ''bool'']]
                 else []) @
                [EmptyMethod recv (emptyTerms g typ)] @ gs,
                g2)))"

text \<open>
  Lines 444 to 564 of the template: the list container. Its three constants stand
  outside any condition; its \<^verbatim>\<open>Kind\<close>, \<^verbatim>\<open>Link\<close>, \<^verbatim>\<open>HREF\<close> and \<^verbatim>\<open>GetHREF\<close> are inside
  \<^verbatim>\<open>{{ if .Type.IsClass }}\<close>.
\<close>

definition listDecls :: "TypesGenerator \<Rightarrow> Type \<Rightarrow> Decl list" where
  "listDecls g typ =
     (let n = objectName g typ; l = listName g typ; recv = ''*'' @ listName g typ in
      kindConsts l @
      [StructDecl l
         [(''href'', Literal ''*string''), (''link'', Literal ''bool''),
          (''items'', Literal (''[]*'' @ n))]] @
      (if IsClass typ
       then [Method recv ''Kind'' [Literal ''string''],
             Method recv ''Link'' [Literal ''bool''],
             Method recv ''HREF'' [Literal ''string''],
             Method recv ''GetHREF'' [Literal ''string'', Literal ''bool'']]
       else []) @
      [Method recv ''Len'' [Literal ''int''],
       Method recv ''Empty'' [Literal ''bool''],
       Method recv ''Get'' [Literal (''*'' @ n)],
       Method recv ''Slice'' [Literal (''[]*'' @ n)],
       Method recv ''Each'' [],
       Method recv ''Range'' []])"

definition structDecls :: "TypesGenerator \<Rightarrow> Type \<Rightarrow> Decl list \<times> TypesGenerator" where
  "structDecls g typ = (case objectDecls g typ of (ds, g1) \<Rightarrow> (ds @ listDecls g typ, g1))"

definition generateStructTypeSource :: "TypesGenerator \<Rightarrow> Type \<Rightarrow> TypesGenerator" where
  "generateStructTypeSource g typ =
     (case structDecls (Import g ''time'' []) typ of (ds, g1) \<Rightarrow> Emit g1 ds)"

definition generateTypeSource :: "TypesGenerator \<Rightarrow> Type \<Rightarrow> TypesGenerator" where
  "generateTypeSource g typ =
     (if IsEnum typ then generateEnumTypeSource g typ
      else if IsStruct typ then generateStructTypeSource g typ
      else g)"

section \<open>Files and the run\<close>

definition versionRef :: "Version \<Rightarrow> VersionRef" where
  "versionRef v = (vService v, vName v)"

text \<open>
  Both file generators build the buffer, stop at its error, emit and return what
  \<^verbatim>\<open>Write\<close> returns; the buffer written is the one of the generator, which is the one
  just built with what was emitted into it. None of them touches the \<^verbatim>\<open>errors\<close> field.
\<close>

definition generateVersionMetadataTypeFile ::
  "'w BufferOps \<Rightarrow> TypesGenerator \<Rightarrow> Version \<Rightarrow> 'w \<Rightarrow> string option \<times> TypesGenerator \<times> 'w" where
  "generateVersionMetadataTypeFile io g version w =
     (case Buffer_Build io (VersionPackage (packages g) (versionRef version)) (metadataFile g) w of
        (Inl err, w1) \<Rightarrow> (Some err, g\<lparr>buffer := None\<rparr>, w1)
      | (Inr b, w1) \<Rightarrow>
          (let g1 = generateVersionMetadataTypeSource (g\<lparr>buffer := Some b\<rparr>) in
           case Buffer_Write io (case buffer g1 of None \<Rightarrow> b | Some b1 \<Rightarrow> b1) w1 of
             (err, w2) \<Rightarrow> (err, g1, w2)))"

definition generateTypeFile ::
  "'w BufferOps \<Rightarrow> TypesGenerator \<Rightarrow> Type \<Rightarrow> 'w \<Rightarrow> string option \<times> TypesGenerator \<times> 'w" where
  "generateTypeFile io g typ w =
     (case Buffer_Build io (VersionPackage (packages g) (tOwner typ)) (typeFile g typ) w of
        (Inl err, w1) \<Rightarrow> (Some err, g\<lparr>buffer := None\<rparr>, w1)
      | (Inr b, w1) \<Rightarrow>
          (let g1 = generateTypeSource (g\<lparr>buffer := Some b\<rparr>) typ in
           case Buffer_Write io (case buffer g1 of None \<Rightarrow> b | Some b1 \<Rightarrow> b1) w1 of
             (err, w2) \<Rightarrow> (err, g1, w2)))"

text \<open>
  The loops of \<^verbatim>\<open>Run\<close>, innermost first. A type that is neither an enum nor a struct
  leaves \<^verbatim>\<open>err\<close> as it was, which is nil, since a non-nil \<^verbatim>\<open>err\<close> has returned already.
\<close>

fun runTypes ::
  "'w BufferOps \<Rightarrow> TypesGenerator \<Rightarrow> Type list \<Rightarrow> 'w \<Rightarrow> string option \<times> TypesGenerator \<times> 'w" where
  "runTypes io g [] w = (None, g, w)"
| "runTypes io g (typ # typs) w =
     (case (if IsEnum typ \<or> IsStruct typ then generateTypeFile io g typ w else (None, g, w)) of
        (Some err, g1, w1) \<Rightarrow> (Some err, g1, w1)
      | (None, g1, w1) \<Rightarrow> runTypes io g1 typs w1)"

fun runVersions ::
  "'w BufferOps \<Rightarrow> TypesGenerator \<Rightarrow> Version list \<Rightarrow> 'w \<Rightarrow> string option \<times> TypesGenerator \<times> 'w" where
  "runVersions io g [] w = (None, g, w)"
| "runVersions io g (version # versions) w =
     (case generateVersionMetadataTypeFile io g version w of
        (Some err, g1, w1) \<Rightarrow> (Some err, g1, w1)
      | (None, g1, w1) \<Rightarrow>
          (case runTypes io g1 (vTypes version) w1 of
             (Some err, g2, w2) \<Rightarrow> (Some err, g2, w2)
           | (None, g2, w2) \<Rightarrow> runVersions io g2 versions w2))"

fun runServices ::
  "'w BufferOps \<Rightarrow> TypesGenerator \<Rightarrow> Service list \<Rightarrow> 'w \<Rightarrow> string option \<times> TypesGenerator \<times> 'w" where
  "runServices io g [] w = (None, g, w)"
| "runServices io g (service # services) w =
     (case runVersions io g (sVersions service) w of
        (Some err, g1, w1) \<Rightarrow> (Some err, g1, w1)
      | (None, g1, w1) \<Rightarrow> runServices io g1 services w1)"

text \<open>The verb \<^verbatim>\<open>%d\<close> of \<^verbatim>\<open>fmt\<close>: an integer in decimal, with its sign when negative.\<close>

fun digits :: "nat \<Rightarrow> string" where
  "digits n =
     (if n < 10 then [''0123456789'' ! n]
      else digits (n div 10) @ [''0123456789'' ! (n mod 10)])"

declare digits.simps [simp del]

definition fmt_d :: "int \<Rightarrow> string" where
  "fmt_d i = (if i < 0 then ''-'' @ digits (nat (- i)) else digits (nat i))"

definition Run ::
  "'w BufferOps \<Rightarrow> TypesGenerator \<Rightarrow> 'w \<Rightarrow> string option \<times> TypesGenerator \<times> 'w" where
  "Run io g w =
     (case runServices io g (Services (model g)) w of
        (Some err, g1, w1) \<Rightarrow> (Some err, g1, w1)
      | (None, g1, w1) \<Rightarrow>
          (if errors g1 > 0 then
             (if errors g1 > 1
              then (Some (''there were '' @ fmt_d (errors g1) @ '' errors''), g1, w1)
              else (Some ''there was 1 error'', g1, w1))
           else (None, g1, w1)))"

section \<open>The selection table of the specification\<close>

text \<open>
  The table of section 4.4, row by row, written from the specification and not from the
  code: the form of the field and the form of the getter for each kind of type. It has no
  row for an enumerated type.
\<close>

datatype Form = ValueForm | NullableForm | ListContainerForm

fun specFieldForm :: "TypeKind \<Rightarrow> bool \<Rightarrow> Form option" where
  "specFieldForm ScalarType link = Some NullableForm"
| "specFieldForm StructType link = Some NullableForm"
| "specFieldForm ListType link = Some (if link then ListContainerForm else NullableForm)"
| "specFieldForm MapType link = Some NullableForm"
| "specFieldForm EnumType link = None"

fun specGetterForm :: "TypeKind \<Rightarrow> bool \<Rightarrow> Form option" where
  "specGetterForm ScalarType link = Some ValueForm"
| "specGetterForm StructType link = Some NullableForm"
| "specGetterForm ListType link = Some (if link then ListContainerForm else NullableForm)"
| "specGetterForm MapType link = Some NullableForm"
| "specGetterForm EnumType link = None"

definition formReference ::
  "TypesCalculator \<Rightarrow> Form \<Rightarrow> Type \<Rightarrow> Reporter \<Rightarrow> TypeReference option \<times> Reporter" where
  "formReference c f =
     (case f of ValueForm \<Rightarrow> ValueReference c | NullableForm \<Rightarrow> NullableReference c
      | ListContainerForm \<Rightarrow> ListReference c)"

section \<open>A model and a configuration to run the generator on\<close>

text \<open>
  Modelled from the spec: the names calculator is not among the source files. Section
  4.2: the public name is the words capitalised and concatenated, the private name the
  first word as it is and the others capitalised, with an underscore appended when the
  result is a reserved word of Go, the file name the words joined by underscores and the
  extension.
\<close>

definition upper :: "char \<Rightarrow> char" where
  "upper c =
     (case map_of (zip ''abcdefghijklmnopqrstuvwxyz'' ''ABCDEFGHIJKLMNOPQRSTUVWXYZ'') c of
        None \<Rightarrow> c | Some u \<Rightarrow> u)"

definition capitalize :: "string \<Rightarrow> string" where
  "capitalize w = (case w of [] \<Rightarrow> [] | c # cs \<Rightarrow> upper c # cs)"

definition reservedWords :: "string list" where
  "reservedWords =
     [''break'', ''case'', ''chan'', ''const'', ''continue'', ''default'', ''defer'', ''else'',
      ''fallthrough'', ''for'', ''func'', ''go'', ''goto'', ''if'', ''import'', ''interface'',
      ''map'', ''package'', ''range'', ''return'', ''select'', ''struct'', ''switch'', ''type'',
      ''var'']"

definition specPublic :: "Name \<Rightarrow> string" where
  "specPublic n = concat (map capitalize n)"

definition specPrivate :: "Name \<Rightarrow> string" where
  "specPrivate n =
     (let s = (case n of [] \<Rightarrow> [] | w # ws \<Rightarrow> w @ concat (map capitalize ws))
      in if s \<in> set reservedWords then s @ ''_'' else s)"

definition specFile :: "Name \<Rightarrow> string" where
  "specFile n = joinWords ''_'' n @ ''.go''"

definition specNames :: NamesCalculator where
  "specNames = \<lparr>Public = specPublic, Private = specPrivate, File = specFile\<rparr>"

text \<open>
  A types calculator and a packages calculator for the examples: they never report and
  never return nil. The value reference is the name of the type, the nullable reference
  a pointer to it, the list reference a pointer to the list container.
\<close>

definition exampleTypes :: TypesCalculator where
  "exampleTypes =
     \<lparr>ValueReference = (\<lambda>t r. (Some \<lparr>refText = concat (tName t)\<rparr>, r)),
      NullableReference = (\<lambda>t r. (Some \<lparr>refText = ''*'' @ concat (tName t)\<rparr>, r)),
      ListReference = (\<lambda>t r. (Some \<lparr>refText = ''*'' @ specPublic (tName t) @ ''List''\<rparr>, r)),
      ZeroValue = (\<lambda>t r. (''0'', r)),
      EnumName = (\<lambda>t r. (specPublic (tName t), r))\<rparr>"

definition examplePackages :: PackagesCalculator where
  "examplePackages = \<lparr>VersionPackage = (\<lambda>(s, v). concat s @ ''/'' @ concat v)\<rparr>"

text \<open>
  The struct of \<^verbatim>\<open>tests/model/authorizations/v1/resource_review_type.model\<close>: not a
  class, three string attributes and three lists of strings, none of them a link.
\<close>

definition authorizations_v1 :: VersionRef where
  "authorizations_v1 = ([''authorizations''], [''v1''])"

definition stringType :: Type where
  "stringType = Type [''string''] ScalarType False [] authorizations_v1 [] [] None"

definition stringListType :: Type where
  "stringListType =
     Type [''string'', ''list''] ListType False [] authorizations_v1 [] [] (Some stringType)"

definition resourceReview :: Type where
  "resourceReview =
     Type [''resource'', ''review''] StructType False [] authorizations_v1
       [Attribute [''account'', ''username''] stringType False [],
        Attribute [''action''] stringType False [],
        Attribute [''resource'', ''type''] stringType False [],
        Attribute [''cluster'', ''ids''] stringListType False [],
        Attribute [''subscription'', ''ids''] stringListType False [],
        Attribute [''organization'', ''ids''] stringListType False []]
       [] None"

definition exampleModel :: Model where
  "exampleModel =
     \<lparr>Services =
        [\<lparr>sName = [''authorizations''],
          sVersions =
            [\<lparr>vService = [''authorizations''], vName = [''v1''],
              vTypes = [stringType, stringListType, resourceReview]\<rparr>]\<rparr>]\<rparr>"

definition exampleGenerator :: TypesGenerator where
  "exampleGenerator =
     \<lparr>reporter = [], errors = 0, model = exampleModel, output' = ''out'',
      packages = examplePackages, names = specNames, types = exampleTypes, buffer = None\<rparr>"

definition exampleBuilder :: TypesGeneratorBuilder where
  "exampleBuilder =
     \<lparr>b_reporter = Some [], b_model = Some exampleModel, b_output = ''out'',
      b_packages = Some examplePackages, b_names = Some specNames,
      b_types = Some exampleTypes\<rparr>"

text \<open>An attribute whose type is an enumeration, and a list attribute that is a link.\<close>

definition stateType :: Type where
  "stateType =
     Type [''state''] EnumType False [] authorizations_v1 []
       [\<lparr>evName = [''ready''], evTypeName = [''state''], evDoc = []\<rparr>] None"

definition stateAttribute :: Attribute where
  "stateAttribute = Attribute [''state''] stateType False []"

definition reviewListType :: Type where
  "reviewListType =
     Type [''resource'', ''review''] ListType False [] authorizations_v1 [] []
       (Some resourceReview)"

definition reviewsAttribute :: Attribute where
  "reviewsAttribute = Attribute [''reviews''] reviewListType True []"

text \<open>
  The outside world of the examples is the list of the files written so far: building a
  buffer for a file that is there already fails, writing never does.
\<close>

definition exampleIO :: "(string \<times> string) list BufferOps" where
  "exampleIO =
     \<lparr>Buffer_Build = (\<lambda>pkg file w.
        if (pkg, file) \<in> set w then (Inl ''file exists'', w)
        else (Inr \<lparr>bPackage = pkg, bFile = file, bImports = [], bCode = []\<rparr>, w)),
      Buffer_Write = (\<lambda>b w. (None, w @ [(bPackage b, bFile b)]))\<rparr>"

section \<open>The emitted Go, run\<close>

text \<open>
  What the emitted methods compute. A value of an emitted struct is the list of its
  fields by name; the receiver of a method is a pointer to it, nil or not. A scalar is
  held by a pointer, a struct attribute by a pointer to another object (kept as its
  address), a list that is no link by a slice, a list that is a link by a pointer to a
  list container, a map by a map. Reading a field that the object does not have, or at
  another type than the method's code needs, has no result: such code does not compile.
\<close>

datatype Scalar = BoolVal bool | IntVal int | StringVal string | OtherVal string

text \<open>
  A slice is its header: the backing array (nil for the nil slice), the offset into it,
  the length and the capacity. The arrays live in a store, an array's address being its
  position there; an item of a list container is a pointer \<^verbatim>\<open>*Object\<close>, nil or an address.
\<close>

record Slice =
  sArray :: "nat option"
  sOff :: nat
  sLen :: nat
  sCap :: nat

type_synonym Item = "nat option"

type_synonym Heap = "Item list list"

record ObjectList =
  lHref :: "string option"
  lLink :: bool
  items :: Slice

datatype Value =
  Val Scalar
| Ptr "Scalar option"
| ObjPtr "nat option"
| SliceVal Slice
| ListPtr "ObjectList option"
| MapVal "(string \<times> Scalar) list option"

type_synonym Object = "(string \<times> Value) list"

definition nilSlice :: Slice where
  "nilSlice = \<lparr>sArray = None, sOff = 0, sLen = 0, sCap = 0\<rparr>"

definition validSlice :: "Heap \<Rightarrow> Slice \<Rightarrow> bool" where
  "validSlice h s =
     (case sArray s of
        None \<Rightarrow> sLen s = 0 \<and> sCap s = 0
      | Some a \<Rightarrow> a < length h \<and> sLen s \<le> sCap s \<and> sOff s + sCap s \<le> length (h ! a))"

text \<open>\<^verbatim>\<open>make([]*T, n)\<close>: a new array of n nil pointers, and the slice of all of it.\<close>

definition go_make :: "nat \<Rightarrow> Heap \<Rightarrow> Slice \<times> Heap" where
  "go_make n h = (\<lparr>sArray = Some (length h), sOff = 0, sLen = n, sCap = n\<rparr>, h @ [replicate n None])"

definition elems :: "Heap \<Rightarrow> Slice \<Rightarrow> Item list" where
  "elems h s =
     (case sArray s of
        None \<Rightarrow> []
      | Some a \<Rightarrow> if a < length h then take (sLen s) (drop (sOff s) (h ! a)) else [])"

text \<open>
  \<^verbatim>\<open>copy(dst, src)\<close>: the first \<^verbatim>\<open>min(len(dst), len(src))\<close> elements of the source, written
  over those of the destination; the count is the result.
\<close>

definition go_copy :: "Heap \<Rightarrow> Slice \<Rightarrow> Slice \<Rightarrow> Heap \<times> nat" where
  "go_copy h dst src =
     (let n = min (sLen dst) (sLen src) in
      case sArray dst of
        None \<Rightarrow> (h, n)
      | Some a \<Rightarrow>
          (h[a := take (sOff dst) (h ! a) @ take n (elems h src) @ drop (sOff dst + n) (h ! a)],
           n))"

text \<open>\<^verbatim>\<open>s[i]\<close> and \<^verbatim>\<open>s[i] = v\<close>: out of range, they panic, which is no result here.\<close>

definition slice_get :: "Heap \<Rightarrow> Slice \<Rightarrow> nat \<Rightarrow> Item option" where
  "slice_get h s i =
     (case sArray s of
        None \<Rightarrow> None
      | Some a \<Rightarrow>
          if i < sLen s \<and> a < length h \<and> sOff s + i < length (h ! a)
          then Some (h ! a ! (sOff s + i)) else None)"

definition slice_set :: "Heap \<Rightarrow> Slice \<Rightarrow> nat \<Rightarrow> Item \<Rightarrow> Heap option" where
  "slice_set h s i v =
     (case sArray s of
        None \<Rightarrow> None
      | Some a \<Rightarrow>
          if i < sLen s \<and> a < length h \<and> sOff s + i < length (h ! a)
          then Some (h[a := (h ! a)[sOff s + i := v]]) else None)"

subsection \<open>The methods of a struct\<close>

definition KindValue :: "string \<Rightarrow> string" where
  "KindValue n = n"

definition LinkKindValue :: "string \<Rightarrow> string" where
  "LinkKindValue n = n @ ''Link''"

definition NilKindValue :: "string \<Rightarrow> string" where
  "NilKindValue n = n @ ''Nil''"

definition boolField :: "Object \<Rightarrow> string \<Rightarrow> bool option" where
  "boolField ob f = (case map_of ob f of Some (Val (BoolVal b)) \<Rightarrow> Some b | _ \<Rightarrow> None)"

definition stringPtrField :: "Object \<Rightarrow> string \<Rightarrow> string option option" where
  "stringPtrField ob f =
     (case map_of ob f of
        Some (Ptr None) \<Rightarrow> Some None
      | Some (Ptr (Some (StringVal s))) \<Rightarrow> Some (Some s)
      | _ \<Rightarrow> None)"

text \<open>
  \<^verbatim>\<open>if o != nil && o.f != nil { return *o.f }; return ""\<close>, the body of \<^verbatim>\<open>ID\<close>, \<^verbatim>\<open>HREF\<close> and
  \<^verbatim>\<open>ServerVersion\<close>, and \<^verbatim>\<open>ok = o != nil && o.f != nil; if ok { value = *o.f }; return\<close>,
  the body of \<^verbatim>\<open>GetID\<close>, \<^verbatim>\<open>GetHREF\<close> and \<^verbatim>\<open>GetServerVersion\<close>.
\<close>

definition stringOrEmpty :: "Object option \<Rightarrow> string \<Rightarrow> string option" where
  "stringOrEmpty obj f =
     (case obj of
        None \<Rightarrow> Some []
      | Some ob \<Rightarrow>
          (case stringPtrField ob f of
             None \<Rightarrow> None
           | Some None \<Rightarrow> Some []
           | Some (Some s) \<Rightarrow> Some s))"

definition stringProbe :: "Object option \<Rightarrow> string \<Rightarrow> (string \<times> bool) option" where
  "stringProbe obj f =
     (case obj of
        None \<Rightarrow> Some ([], False)
      | Some ob \<Rightarrow>
          (case stringPtrField ob f of
             None \<Rightarrow> None
           | Some None \<Rightarrow> Some ([], False)
           | Some (Some s) \<Rightarrow> Some (s, True)))"

definition Object_Kind :: "string \<Rightarrow> Object option \<Rightarrow> string option" where
  "Object_Kind n obj =
     (case obj of
        None \<Rightarrow> Some (NilKindValue n)
      | Some ob \<Rightarrow>
          (case boolField ob ''link'' of
             None \<Rightarrow> None
           | Some b \<Rightarrow> Some (if b then LinkKindValue n else KindValue n)))"

definition Object_ID :: "Object option \<Rightarrow> string option" where
  "Object_ID obj = stringOrEmpty obj ''id''"

definition Object_GetID :: "Object option \<Rightarrow> (string \<times> bool) option" where
  "Object_GetID obj = stringProbe obj ''id''"

definition Object_Link :: "Object option \<Rightarrow> bool option" where
  "Object_Link obj = (case obj of None \<Rightarrow> Some False | Some ob \<Rightarrow> boolField ob ''link'')"

definition Object_HREF :: "Object option \<Rightarrow> string option" where
  "Object_HREF obj = stringOrEmpty obj ''href''"

definition Object_GetHREF :: "Object option \<Rightarrow> (string \<times> bool) option" where
  "Object_GetHREF obj = stringProbe obj ''href''"

text \<open>
  \<^verbatim>\<open>Empty\<close>: \<^verbatim>\<open>o == nil || (c1 && ... && cn && true)\<close>, the conjuncts being those the
  template has emitted, evaluated from the left and no further than the first false one.
\<close>

definition isNil :: "Value \<Rightarrow> bool option" where
  "isNil v =
     (case v of
        Val x \<Rightarrow> None
      | Ptr p \<Rightarrow> Some (p = None)
      | ObjPtr p \<Rightarrow> Some (p = None)
      | SliceVal s \<Rightarrow> Some (sArray s = None)
      | ListPtr l \<Rightarrow> Some (l = None)
      | MapVal m \<Rightarrow> Some (m = None))"

definition List_Len :: "ObjectList option \<Rightarrow> int" where
  "List_Len l = (case l of None \<Rightarrow> 0 | Some x \<Rightarrow> int (sLen (items x)))"

definition evalEmptyTerm :: "Object \<Rightarrow> EmptyTerm \<Rightarrow> bool option" where
  "evalEmptyTerm ob c =
     (case c of
        FieldIsNil f \<Rightarrow> (case map_of ob f of None \<Rightarrow> None | Some v \<Rightarrow> isNil v)
      | ListLenIsZero f \<Rightarrow>
          (case map_of ob f of Some (ListPtr l) \<Rightarrow> Some (List_Len l = 0) | _ \<Rightarrow> None)
      | LenIsZero f \<Rightarrow>
          (case map_of ob f of
             Some (SliceVal s) \<Rightarrow> Some (sLen s = 0)
           | Some (MapVal None) \<Rightarrow> Some True
           | Some (MapVal (Some kvs)) \<Rightarrow> Some (length kvs = 0)
           | _ \<Rightarrow> None))"

fun evalEmptyTerms :: "Object \<Rightarrow> EmptyTerm list \<Rightarrow> bool option" where
  "evalEmptyTerms ob [] = Some True"
| "evalEmptyTerms ob (c # cs) =
     (case evalEmptyTerm ob c of
        None \<Rightarrow> None
      | Some b \<Rightarrow> if b then evalEmptyTerms ob cs else Some False)"

definition Object_Empty :: "TypesGenerator \<Rightarrow> Type \<Rightarrow> Object option \<Rightarrow> bool option" where
  "Object_Empty g typ obj =
     (case obj of None \<Rightarrow> Some True | Some ob \<Rightarrow> evalEmptyTerms ob (emptyTerms g typ))"

text \<open>
  The getters of an attribute. Two things the generator leaves to Go and to the types
  calculator are parameters: the value of the literal that \<^verbatim>\<open>zeroValue\<close> renders, and the
  zero value Go gives the named result \<^verbatim>\<open>value\<close> of the probing getter. The nil that the
  getter of a struct, list or map attribute returns is the nil of the attribute's field.
\<close>

record Runtime =
  zeroLiteral :: "Type \<Rightarrow> Scalar"
  goZero :: "Type \<Rightarrow> Scalar"

definition nilValue :: "Attribute \<Rightarrow> Value" where
  "nilValue a =
     (if IsStruct (aType a) then ObjPtr None
      else if IsList (aType a) then (if Link a then ListPtr None else SliceVal nilSlice)
      else MapVal None)"

definition byReference :: "Attribute \<Rightarrow> bool" where
  "byReference a = (IsStruct (aType a) \<or> IsList (aType a) \<or> IsMap (aType a))"

definition Object_Getter ::
  "Runtime \<Rightarrow> TypesGenerator \<Rightarrow> Attribute \<Rightarrow> Object option \<Rightarrow> Value option" where
  "Object_Getter rt g a obj =
     (if byReference a then
        (case obj of None \<Rightarrow> Some (nilValue a) | Some ob \<Rightarrow> map_of ob (fieldName g a))
      else
        (case obj of
           None \<Rightarrow> Some (Val (zeroLiteral rt (aType a)))
         | Some ob \<Rightarrow>
             (case map_of ob (fieldName g a) of
                Some (Ptr None) \<Rightarrow> Some (Val (zeroLiteral rt (aType a)))
              | Some (Ptr (Some x)) \<Rightarrow> Some (Val x)
              | _ \<Rightarrow> None)))"

definition zeroResult :: "Runtime \<Rightarrow> Attribute \<Rightarrow> Value" where
  "zeroResult rt a = (if byReference a then nilValue a else Val (goZero rt (aType a)))"

definition Object_GetGetter ::
  "Runtime \<Rightarrow> TypesGenerator \<Rightarrow> Attribute \<Rightarrow> Object option \<Rightarrow> (Value \<times> bool) option" where
  "Object_GetGetter rt g a obj =
     (case obj of
        None \<Rightarrow> Some (zeroResult rt a, False)
      | Some ob \<Rightarrow>
          (case map_of ob (fieldName g a) of
             None \<Rightarrow> None
           | Some v \<Rightarrow>
               (case isNil v of
                  None \<Rightarrow> None
                | Some nil \<Rightarrow>
                    if nil then Some (zeroResult rt a, False)
                    else if byReference a then Some (v, True)
                    else (case v of Ptr (Some x) \<Rightarrow> Some (Val x, True) | _ \<Rightarrow> None))))"

subsection \<open>The methods of the list container\<close>

definition List_Kind :: "string \<Rightarrow> ObjectList option \<Rightarrow> string" where
  "List_Kind n l =
     (case l of
        None \<Rightarrow> NilKindValue n
      | Some x \<Rightarrow> if lLink x then LinkKindValue n else KindValue n)"

definition List_Link :: "ObjectList option \<Rightarrow> bool" where
  "List_Link l = (case l of None \<Rightarrow> False | Some x \<Rightarrow> lLink x)"

definition List_HREF :: "ObjectList option \<Rightarrow> string" where
  "List_HREF l =
     (case l of None \<Rightarrow> [] | Some x \<Rightarrow> (case lHref x of None \<Rightarrow> [] | Some s \<Rightarrow> s))"

definition List_GetHREF :: "ObjectList option \<Rightarrow> string \<times> bool" where
  "List_GetHREF l =
     (case l of
        None \<Rightarrow> ([], False)
      | Some x \<Rightarrow> (case lHref x of None \<Rightarrow> ([], False) | Some s \<Rightarrow> (s, True)))"

definition List_Empty :: "ObjectList option \<Rightarrow> bool" where
  "List_Empty l = (case l of None \<Rightarrow> True | Some x \<Rightarrow> sLen (items x) = 0)"

text \<open>\<^verbatim>\<open>Get\<close> takes a Go \<^verbatim>\<open>int\<close>; its result is the item, or no result where \<^verbatim>\<open>l.items[i]\<close> panics.\<close>

definition List_Get :: "Heap \<Rightarrow> ObjectList option \<Rightarrow> int \<Rightarrow> Item option" where
  "List_Get h l i =
     (case l of
        None \<Rightarrow> Some None
      | Some x \<Rightarrow>
          if i < 0 \<or> i \<ge> int (sLen (items x)) then Some None
          else slice_get h (items x) (nat i))"

definition List_Slice :: "Heap \<Rightarrow> ObjectList option \<Rightarrow> Slice \<times> Heap" where
  "List_Slice h l =
     (case l of
        None \<Rightarrow> go_make 0 h
      | Some x \<Rightarrow>
          (case go_make (sLen (items x)) h of
             (slice, h1) \<Rightarrow> (slice, fst (go_copy h1 slice (items x)))))"

text \<open>
  \<^verbatim>\<open>Each\<close> and \<^verbatim>\<open>Range\<close>: the callback is a function of the item (and the index) and of the
  state of the program, the store of the arrays and whatever else it keeps, and returns
  its verdict and the state as it left it. The loop reads the slice header once and each
  item when its turn comes, and stops at the first false verdict.
\<close>

fun rangeLoop ::
  "(nat \<Rightarrow> Item \<Rightarrow> Heap \<times> 's \<Rightarrow> bool \<times> Heap \<times> 's) \<Rightarrow> Slice \<Rightarrow> nat \<Rightarrow> nat \<Rightarrow> Heap \<times> 's \<Rightarrow>
     (Heap \<times> 's) option" where
  "rangeLoop f s 0 i w = Some w"
| "rangeLoop f s (Suc k) i w =
     (case slice_get (fst w) s i of
        None \<Rightarrow> None
      | Some item \<Rightarrow>
          (case f i item w of
             (continue, w1) \<Rightarrow> if continue then rangeLoop f s k (Suc i) w1 else Some w1))"

definition List_Each ::
  "ObjectList option \<Rightarrow> (Item \<Rightarrow> Heap \<times> 's \<Rightarrow> bool \<times> Heap \<times> 's) \<Rightarrow> Heap \<times> 's \<Rightarrow> (Heap \<times> 's) option" where
  "List_Each l f w =
     (case l of
        None \<Rightarrow> Some w
      | Some x \<Rightarrow> rangeLoop (\<lambda>i. f) (items x) (sLen (items x)) 0 w)"

definition List_Range ::
  "ObjectList option \<Rightarrow> (int \<Rightarrow> Item \<Rightarrow> Heap \<times> 's \<Rightarrow> bool \<times> Heap \<times> 's) \<Rightarrow> Heap \<times> 's \<Rightarrow>
     (Heap \<times> 's) option" where
  "List_Range l f w =
     (case l of
        None \<Rightarrow> Some w
      | Some x \<Rightarrow> rangeLoop (\<lambda>i. f (int i)) (items x) (sLen (items x)) 0 w)"

subsection \<open>The methods of the version metadata\<close>

definition Metadata_ServerVersion :: "Object option \<Rightarrow> string option" where
  "Metadata_ServerVersion m = stringOrEmpty m ''serverVersion''"

definition Metadata_GetServerVersion :: "Object option \<Rightarrow> (string \<times> bool) option" where
  "Metadata_GetServerVersion m = stringProbe m ''serverVersion''"

text \<open>
  The emptiness of the specification, written from its words and not from the code:
  every field is in its zero or empty state, a pointer nil, a list or a map of length
  zero, a flag false.
\<close>

definition fieldIsEmpty :: "Value \<Rightarrow> bool" where
  "fieldIsEmpty v =
     (case v of
        Val x \<Rightarrow> x = BoolVal False \<or> x = IntVal 0 \<or> x = StringVal []
      | Ptr p \<Rightarrow> p = None
      | ObjPtr p \<Rightarrow> p = None
      | SliceVal s \<Rightarrow> sLen s = 0
      | ListPtr l \<Rightarrow> List_Len l = 0
      | MapVal m \<Rightarrow> (case m of None \<Rightarrow> True | Some kvs \<Rightarrow> kvs = []))"

definition specEmpty :: "Object option \<Rightarrow> bool" where
  "specEmpty obj = (case obj of None \<Rightarrow> True | Some ob \<Rightarrow> list_all fieldIsEmpty (map snd ob))"

text \<open>
  A struct with one attribute whose type is the struct of the test model, and an object
  of it with that attribute set.
\<close>

definition accessReview :: Type where
  "accessReview =
     Type [''access'', ''review''] StructType False [] authorizations_v1
       [Attribute [''review''] resourceReview False []] [] None"

definition accessReviewObject :: Object where
  "accessReviewObject = [(''review'', ObjPtr (Some 0))]"

text \<open>
  A store with one array of four pointers, a list container over its two middle ones,
  and a callback that counts its calls.
\<close>

definition exampleHeap :: Heap where
  "exampleHeap = [[Some 1, Some 2, Some 3, None]]"

definition exampleList :: ObjectList where
  "exampleList =
     \<lparr>lHref = None, lLink = False,
      items = \<lparr>sArray = Some 0, sOff = 1, sLen = 2, sCap = 3\<rparr>\<rparr>"

definition countCalls :: "Item \<Rightarrow> Heap \<times> nat \<Rightarrow> bool \<times> Heap \<times> nat" where
  "countCalls item w = (True, fst w, Suc (snd w))"

definition exampleRuntime :: Runtime where
  "exampleRuntime = \<lparr>zeroLiteral = (\<lambda>t. StringVal []), goZero = (\<lambda>t. StringVal [])\<rparr>"

section \<open>The server adapter\<close>

text \<open>
  Modelled from the spec: the generator of the server adapters and the adapters it emits
  are not among the source files; the server tests of package \<^verbatim>\<open>tests\<close> and the
  servers they implement are. Section 4.6.4: every resource has its adapter, which gets
  the server of the resource and the part of the path that follows the resource's own
  prefix. Its methods answer the empty sub-path (\<^verbatim>\<open>List\<close> to \<^verbatim>\<open>GET\<close>, \<^verbatim>\<open>Add\<close> to \<^verbatim>\<open>POST\<close>,
  \<^verbatim>\<open>Get\<close> to \<^verbatim>\<open>GET\<close>, \<^verbatim>\<open>Update\<close> to \<^verbatim>\<open>PATCH\<close>, \<^verbatim>\<open>Delete\<close> to \<^verbatim>\<open>DELETE\<close>), an action answers
  \<^verbatim>\<open>POST\<close> on the sub-path of a slash and its name, a locator without identifier is a
  literal segment and one with an identifier a segment that is bound and passed to the
  locator function of the server, which returns the server of the sub-resource, and a
  segment that nothing answers is 404. The root resource is at \<^verbatim>\<open>/\<close>. Section 7: 405
  where the resource has methods and none for the verb, 400 for a malformed integer in
  the query, 500 where the implementation returns an error.
\<close>

datatype Verb = GET | POST | PATCH | DELETE | OtherVerb string

datatype Method = ListM | AddM | GetM | UpdateM | DeleteM | ActionM string

datatype Locator =
  Locator (lName: string) (lVariable: bool) (lTarget: Resource)
and Resource =
  Resource (rMethods: "Method list") (rLocators: "Locator list")

text \<open>Invariant 1 of section 3: the name of an action and of a literal locator is not empty.\<close>

fun wfLocator :: "Locator \<Rightarrow> bool"
and wfResource :: "Resource \<Rightarrow> bool" where
  "wfLocator (Locator n v t) = ((v \<or> n \<noteq> []) \<and> wfResource t)"
| "wfResource (Resource ms ls) = (ActionM [] \<notin> set ms \<and> list_all wfLocator ls)"

datatype JSON = JInt int | JString string | JArray "JSON list" | JObject "(string \<times> JSON) list"

record Request =
  verb :: Verb
  path :: string
  query :: "(string \<times> string) list"

record HTTPResponse =
  status :: nat
  body :: "JSON option"

text \<open>
  The request and response objects that a method of the implementation gets: the page
  and the size of the query, and the response as its setters have left it, empty at
  first.
\<close>

record ServerRequest =
  reqPage :: int
  reqSize :: int

record ServerResponse =
  respPage :: int
  respSize :: int
  respTotal :: int
  respItems :: "JSON list"
  respBody :: "JSON option"

definition emptyResponse :: ServerResponse where
  "emptyResponse = \<lparr>respPage = 0, respSize = 0, respTotal = 0, respItems = [], respBody = None\<rparr>"

text \<open>
  The implementation of the user is a tree of servers, each with its methods and its
  locator functions, which return the servers below it. The tree is given by its
  branches: for the server that a chain of calls of locator functions returns, each call
  the name of the locator and the identifier passed, if any, and for a method of it, the
  function from the request and the empty response to an error or the response.
\<close>

type_synonym Route = "(string \<times> string option) list"

type_synonym Implementation =
  "Route \<Rightarrow> Method \<Rightarrow> ServerRequest \<Rightarrow> ServerResponse \<Rightarrow> string + ServerResponse"

text \<open>
  The result of processing a method: the response, and the method invoked, if it was.
  The result of serving a request: the response, the locator functions called on the
  way, in their order, and the methods invoked.
\<close>

record Served =
  answer :: HTTPResponse
  calls :: "(Route \<times> Method) list"

record Dispatched =
  reply :: HTTPResponse
  located :: Route
  invoked :: "(Route \<times> Method) list"

subsection \<open>Paths\<close>

fun splitOn :: "char \<Rightarrow> string \<Rightarrow> string list" where
  "splitOn c [] = [[]]"
| "splitOn c (x # xs) =
     (if x = c then [] # splitOn c xs
      else (case splitOn c xs of [] \<Rightarrow> [[x]] | w # ws \<Rightarrow> (x # w) # ws))"

text \<open>
  Modelled from the spec: the path of a request (section 4.6.4). It opens with a slash;
  the root resource is at \<^verbatim>\<open>/\<close>, the path of no segment, and any other path has the
  segments that stand between its slashes. A longer path that ends in a slash ends in an
  empty segment.
\<close>

definition segments :: "string \<Rightarrow> string list option" where
  "segments p =
     (case p of
        [] \<Rightarrow> None
      | x # xs \<Rightarrow>
          if x = CHR ''/'' then Some (if xs = [] then [] else splitOn CHR ''/'' xs)
          else None)"

text \<open>
  The first locator of a resource that answers a segment takes it: a literal one answers
  its name, an identified one any segment that is not empty.
\<close>

fun findLocator :: "Locator list \<Rightarrow> string \<Rightarrow> Locator option" where
  "findLocator [] seg = None"
| "findLocator (l # ls) seg =
     (if (if lVariable l then seg \<noteq> [] else lName l = seg) then Some l
      else findLocator ls seg)"


subsection \<open>Methods\<close>

definition isAction :: "Method \<Rightarrow> bool" where
  "isAction m = (case m of ActionM a \<Rightarrow> True | _ \<Rightarrow> False)"

definition methodFor :: "Resource \<Rightarrow> Verb \<Rightarrow> Method option" where
  "methodFor r v =
     (case v of
        GET \<Rightarrow> if ListM \<in> set (rMethods r) then Some ListM
               else if GetM \<in> set (rMethods r) then Some GetM else None
      | POST \<Rightarrow> if AddM \<in> set (rMethods r) then Some AddM else None
      | PATCH \<Rightarrow> if UpdateM \<in> set (rMethods r) then Some UpdateM else None
      | DELETE \<Rightarrow> if DeleteM \<in> set (rMethods r) then Some DeleteM else None
      | OtherVerb x \<Rightarrow> None)"

text \<open>An integer of the query: decimal digits, with a minus sign before them or none.\<close>

definition digitValue :: "char \<Rightarrow> nat option" where
  "digitValue c = map_of (zip ''0123456789'' [0, 1, 2, 3, 4, 5, 6, 7, 8, 9]) c"

fun parseNat :: "nat \<Rightarrow> string \<Rightarrow> nat option" where
  "parseNat acc [] = Some acc"
| "parseNat acc (c # cs) =
     (case digitValue c of None \<Rightarrow> None | Some d \<Rightarrow> parseNat (10 * acc + d) cs)"

definition parseInt :: "string \<Rightarrow> int option" where
  "parseInt s =
     (case s of
        [] \<Rightarrow> None
      | c # cs \<Rightarrow>
          if c = CHR ''-'' then (if cs = [] then None else map_option (\<lambda>n. - int n) (parseNat 0 cs))
          else map_option int (parseNat 0 s))"

definition queryInt :: "(string \<times> string) list \<Rightarrow> string \<Rightarrow> int option" where
  "queryInt q name = (case map_of q name of None \<Rightarrow> Some 0 | Some s \<Rightarrow> parseInt s)"

definition parseListQuery :: "(string \<times> string) list \<Rightarrow> ServerRequest option" where
  "parseListQuery q =
     (case queryInt q ''page'' of
        None \<Rightarrow> None
      | Some p \<Rightarrow>
          (case queryInt q ''size'' of
             None \<Rightarrow> None
           | Some s \<Rightarrow> Some \<lparr>reqPage = p, reqSize = s\<rparr>))"

definition listEnvelope :: "ServerResponse \<Rightarrow> JSON" where
  "listEnvelope r =
     JObject [(''page'', JInt (respPage r)), (''size'', JInt (respSize r)),
              (''total'', JInt (respTotal r)), (''items'', JArray (respItems r))]"

definition errorBody :: "string \<Rightarrow> JSON" where
  "errorBody reason =
     JObject [(''kind'', JString ''Error''), (''id'', JString ''500''),
              (''reason'', JString reason)]"

definition plain :: "nat \<Rightarrow> Served" where
  "plain code = \<lparr>answer = \<lparr>status = code, body = None\<rparr>, calls = []\<rparr>"

text \<open>
  Modelled from the spec: the processing of one method (section 4.6.4, steps 1 to 5). The
  query is parsed, the implementation invoked with the request and the empty response,
  and its response serialised, a list in its envelope.
\<close>

definition processList ::
  "(ServerRequest \<Rightarrow> ServerResponse \<Rightarrow> string + ServerResponse) \<Rightarrow> (string \<times> string) list \<Rightarrow>
     HTTPResponse option" where
  "processList handler q =
     (case parseListQuery q of
        None \<Rightarrow> None
      | Some request \<Rightarrow>
          Some (case handler request emptyResponse of
                  Inl err \<Rightarrow> \<lparr>status = 500, body = Some (errorBody err)\<rparr>
                | Inr r \<Rightarrow> \<lparr>status = 200, body = Some (listEnvelope r)\<rparr>))"

definition processOther ::
  "(ServerRequest \<Rightarrow> ServerResponse \<Rightarrow> string + ServerResponse) \<Rightarrow> HTTPResponse" where
  "processOther handler =
     (case handler \<lparr>reqPage = 0, reqSize = 0\<rparr> emptyResponse of
        Inl err \<Rightarrow> \<lparr>status = 500, body = Some (errorBody err)\<rparr>
      | Inr r \<Rightarrow> \<lparr>status = 200, body = respBody r\<rparr>)"

definition invoke :: "Implementation \<Rightarrow> Route \<Rightarrow> Method \<Rightarrow> Request \<Rightarrow> Served" where
  "invoke impl route m req =
     (if m = ListM then
        (case processList (impl route ListM) (query req) of
           None \<Rightarrow> plain 400
         | Some r \<Rightarrow> \<lparr>answer = r, calls = [(route, ListM)]\<rparr>)
      else \<lparr>answer = processOther (impl route m), calls = [(route, m)]\<rparr>)"

text \<open>
  Modelled from the spec: the adapter of a resource (sections 4.6.4 and 7). On the empty
  sub-path it answers with the method of the verb. On a segment that a locator answers
  it calls the locator function of its server, with the segment where the locator is
  identified, and hands the rest of the path to the adapter of the sub-resource with
  the server returned; the chain of the calls made so far stands for that server. On a
  last segment that is an action it answers \<^verbatim>\<open>POST\<close>, and any other segment is 404.
\<close>

definition answerHere :: "Resource \<Rightarrow> Implementation \<Rightarrow> Request \<Rightarrow> Route \<Rightarrow> Served" where
  "answerHere r impl req route =
     (case methodFor r (verb req) of
        Some m \<Rightarrow> invoke impl route m req
      | None \<Rightarrow> if list_all isAction (rMethods r) then plain 404 else plain 405)"

fun adapter ::
  "Resource \<Rightarrow> Implementation \<Rightarrow> Request \<Rightarrow> Route \<Rightarrow> string list \<Rightarrow> Served \<times> Route" where
  "adapter r impl req route [] = (answerHere r impl req route, route)"
| "adapter r impl req route (seg # rest) =
     (case findLocator (rLocators r) seg of
        Some l \<Rightarrow>
          adapter (lTarget l) impl req
            (route @ [(lName l, if lVariable l then Some seg else None)]) rest
      | None \<Rightarrow>
          (if rest = [] \<and> ActionM seg \<in> set (rMethods r)
           then (if verb req = POST then invoke impl route (ActionM seg) req else plain 405)
           else plain 404,
           route))"

text \<open>
  Modelled from the spec: the adapter of the root, serving a request. The locator
  functions called are the chain that the adapters have gone down.
\<close>

definition serve :: "Resource \<Rightarrow> Implementation \<Rightarrow> Request \<Rightarrow> Dispatched" where
  "serve root impl req =
     (case segments (path req) of
        None \<Rightarrow> \<lparr>reply = \<lparr>status = 404, body = None\<rparr>, located = [], invoked = []\<rparr>
      | Some segs \<Rightarrow>
          (case adapter root impl req [] segs of
             (served, route) \<Rightarrow>
               \<lparr>reply = answer served, located = route, invoked = calls served\<rparr>))"

subsection \<open>The servers of the tests\<close>

text \<open>
  The resources that the servers of the server tests implement, as far as their
  methods and locators show them, and those servers: \<^verbatim>\<open>MyTestClustersServer\<close>,
  \<^verbatim>\<open>MyTestClusterServer\<close> and \<^verbatim>\<open>MyTestIdentityProvidersServer\<close>. \<^verbatim>\<open>Groups\<close> and
  \<^verbatim>\<open>IdentityProvider\<close> return a nil server, which answers nothing.
\<close>

definition identityProvidersResource :: Resource where
  "identityProvidersResource =
     Resource [ListM, AddM] [Locator ''identity_provider'' True (Resource [] [])]"

definition clusterResource :: Resource where
  "clusterResource =
     Resource [GetM, UpdateM, DeleteM]
       [Locator ''groups'' False (Resource [] []),
        Locator ''identity_providers'' False identityProvidersResource]"

definition clustersResource :: Resource where
  "clustersResource = Resource [ListM, AddM] [Locator ''cluster'' True clusterResource]"

definition rootResource :: Resource where
  "rootResource = Resource [] [Locator ''clusters'' False clustersResource]"



definition named :: "string \<Rightarrow> string \<Rightarrow> JSON" where
  "named kind name = JObject [(''kind'', JString kind), (''name'', JString name)]"

definition MyTestClustersServer_List :: "ServerRequest \<Rightarrow> ServerResponse \<Rightarrow> string + ServerResponse" where
  "MyTestClustersServer_List request response =
     (let its = [named ''Cluster'' ''test-list-clusters''] in
      Inr (response\<lparr>respItems := its, respPage := reqPage request, respSize := reqSize request,
                    respTotal := int (length its)\<rparr>))"

definition MyTestClusterServer_Get :: "ServerRequest \<Rightarrow> ServerResponse \<Rightarrow> string + ServerResponse" where
  "MyTestClusterServer_Get request response =
     Inr (response\<lparr>respBody := Some (named ''Cluster'' ''test-get-cluster-by-id'')\<rparr>)"

definition MyTestIdentityProvidersServer_List ::
  "ServerRequest \<Rightarrow> ServerResponse \<Rightarrow> string + ServerResponse" where
  "MyTestIdentityProvidersServer_List request response =
     (let its = [named ''IdentityProvider'' ''test-list-identity-providers''] in
      Inr (response\<lparr>respItems := its, respPage := 1, respSize := 1, respTotal := 1\<rparr>))"

definition MyTestRootServer :: Implementation where
  "MyTestRootServer route m =
     (if map fst route = [''clusters''] then
        (if m = ListM then MyTestClustersServer_List else (\<lambda>request response. Inr response))
      else if map fst route = [''clusters'', ''cluster''] then
        (if m = GetM then MyTestClusterServer_Get else (\<lambda>request response. Inr response))
      else if map fst route = [''clusters'', ''cluster'', ''identity_providers''] then
        (if m = ListM then MyTestIdentityProvidersServer_List
         else (\<lambda>request response. Inr response))
      else (\<lambda>request response. Inl ''nil server''))"

section \<open>Properties\<close>

lemmas kind_defs = IsScalar_def IsStruct_def IsList_def IsMap_def IsEnum_def

lemmas example_defs =
  exampleGenerator_def exampleTypes_def specNames_def specPublic_def specPrivate_def
  capitalize_def upper_def reservedWords_def Cat_def nomenclator_List_def

subsection \<open>The builder\<close>

text \<open>
  C7. \<^verbatim>\<open>Build\<close> returns an error and no generator as soon as the reporter, the model,
  the output, the packages calculator, the names calculator or the types calculator is
  unset; with all six set it returns no error and a generator that carries exactly
  those six values, no error counted and no buffer.
\<close>

theorem Build_checks_configuration:
  "(b_reporter b = None \<or> b_model b = None \<or> b_output b = [] \<or> b_packages b = None \<or>
    b_names b = None \<or> b_types b = None \<longrightarrow> (\<exists>e. Build b = (None, Some e))) \<and>
   (b_reporter b = Some r \<and> b_model b = Some m \<and> b_output b \<noteq> [] \<and>
    b_packages b = Some p \<and> b_names b = Some n \<and> b_types b = Some t \<longrightarrow>
      Build b = (Some \<lparr>reporter = r, errors = 0, model = m, output' = b_output b,
                       packages = p, names = n, types = t, buffer = None\<rparr>, None))"
  by (simp add: Build_def)

theorem Build_checks_configuration_witness:
  "Build exampleBuilder = (Some exampleGenerator, None) \<and>
   (\<exists>e. Build (exampleBuilder\<lparr>b_names := None\<rparr>) = (None, Some e)) \<and>
   (\<exists>e. Build NewTypesGenerator = (None, Some e))"
  using Build_checks_configuration
          [of exampleBuilder "[]" exampleModel examplePackages specNames exampleTypes]
        Build_checks_configuration [of "exampleBuilder\<lparr>b_names := None\<rparr>"]
        Build_checks_configuration [of NewTypesGenerator]
  by (simp add: exampleBuilder_def exampleGenerator_def NewTypesGenerator_def)

subsection \<open>The forms of fields and getters\<close>

text \<open>
  C1. For every attribute, \<^verbatim>\<open>fieldType\<close> and \<^verbatim>\<open>getterType\<close> follow the table of section
  4.4: where the table has a row for the kind of the attribute's type and its link flag,
  the reference returned is the one the types calculator gives for the form of that row
  (nullable field and value getter for a scalar; nullable for both for a struct, a list
  that is no link and a map; the list container for both for a list that is a link).
\<close>

theorem fieldType_getterType_obey_table:
  "(specFieldForm (tKind (aType a)) (Link a) = Some f \<and>
    formReference (types g) f (aType a) (reporter g) = (Some ref, r) \<longrightarrow>
      fieldType g a = (Some ref, g\<lparr>reporter := r\<rparr>)) \<and>
   (specGetterForm (tKind (aType a)) (Link a) = Some f' \<and>
    formReference (types g) f' (aType a) (reporter g) = (Some ref', r') \<longrightarrow>
      getterType g a = (Some ref', g\<lparr>reporter := r'\<rparr>))"
  by (cases "tKind (aType a)")
     (auto simp: fieldType_def fieldRef_def getterType_def getterRef_def orEmpty_def
        formReference_def kind_defs)

theorem fieldType_getterType_obey_table_witness:
  "fieldType exampleGenerator (Attribute [''action''] stringType False []) =
     (Some \<lparr>refText = ''*string''\<rparr>, exampleGenerator) \<and>
   getterType exampleGenerator (Attribute [''action''] stringType False []) =
     (Some \<lparr>refText = ''string''\<rparr>, exampleGenerator) \<and>
   fieldType exampleGenerator reviewsAttribute =
     (Some \<lparr>refText = ''*ResourceReviewList''\<rparr>, exampleGenerator) \<and>
   getterType exampleGenerator reviewsAttribute =
     (Some \<lparr>refText = ''*ResourceReviewList''\<rparr>, exampleGenerator)"
  using fieldType_getterType_obey_table
          [of "Attribute [''action''] stringType False []" NullableForm exampleGenerator
              "\<lparr>refText = ''*string''\<rparr>" "[]" ValueForm "\<lparr>refText = ''string''\<rparr>" "[]"]
        fieldType_getterType_obey_table
          [of reviewsAttribute ListContainerForm exampleGenerator
              "\<lparr>refText = ''*ResourceReviewList''\<rparr>" "[]" ListContainerForm
              "\<lparr>refText = ''*ResourceReviewList''\<rparr>" "[]"]
  by (simp add: example_defs stringType_def reviewsAttribute_def reviewListType_def
        formReference_def)

text \<open>
  C10. \<^verbatim>\<open>getterType\<close> and \<^verbatim>\<open>fieldType\<close> never return nil, and for an attribute whose
  type is none of scalar, struct, list and map each reports one error to the reporter
  and returns a pointer to the empty type reference.
\<close>

theorem getterType_fieldType_never_nil:
  "fst (getterType g a) \<noteq> None \<and> fst (fieldType g a) \<noteq> None \<and>
   (\<not> IsScalar (aType a) \<and> \<not> IsStruct (aType a) \<and> \<not> IsList (aType a) \<and>
    \<not> IsMap (aType a) \<longrightarrow>
      getterType g a =
        (Some emptyTypeReference,
         g\<lparr>reporter := Errorf (reporter g) getterTypeMessage [AttributeArg a]\<rparr>) \<and>
      fieldType g a =
        (Some emptyTypeReference,
         g\<lparr>reporter := Errorf (reporter g) fieldTypeMessage [AttributeArg a]\<rparr>))"
  by (auto simp: fieldType_def fieldRef_def getterType_def getterRef_def orEmpty_def
        split: prod.splits option.splits)

theorem getterType_fieldType_never_nil_witness:
  "getterType exampleGenerator stateAttribute =
     (Some \<lparr>refText = []\<rparr>,
      exampleGenerator\<lparr>reporter := [(getterTypeMessage, [AttributeArg stateAttribute])]\<rparr>) \<and>
   fieldType exampleGenerator stateAttribute =
     (Some \<lparr>refText = []\<rparr>,
      exampleGenerator\<lparr>reporter := [(fieldTypeMessage, [AttributeArg stateAttribute])]\<rparr>)"
  using getterType_fieldType_never_nil [of exampleGenerator stateAttribute]
  by (simp add: kind_defs stateAttribute_def stateType_def emptyTypeReference_def Errorf_def
        exampleGenerator_def)

subsection \<open>The declarations of the list container\<close>

lemma listDecls_in_structDecls: "set (listDecls g t) \<subseteq> set (fst (structDecls g t))"
  by (simp add: structDecls_def split: prod.splits)

lemma kindConsts_in_listDecls: "set (kindConsts (listName g t)) \<subseteq> set (listDecls g t)"
  by (auto simp: listDecls_def Let_def)

lemma listName_resourceReview:
  "listName exampleGenerator resourceReview = ''ResourceReviewList''"
  by (simp add: listName_def example_defs resourceReview_def)

text \<open>
  C3, as the code has it. For every struct type, class or not, the three kind constants
  of the list container are among the emitted declarations; what depends on the struct
  being a class is the \<^verbatim>\<open>Kind\<close>, \<^verbatim>\<open>Link\<close>, \<^verbatim>\<open>HREF\<close> and \<^verbatim>\<open>GetHREF\<close> methods of the
  container, each emitted if and only if it is.
\<close>

theorem list_kind_constants_unconditional:
  "set (kindConsts (listName g t)) \<subseteq> set (fst (structDecls g t)) \<and>
   (Method (''*'' @ listName g t) ''Kind'' [Literal ''string''] \<in> set (listDecls g t)
      \<longleftrightarrow> IsClass t) \<and>
   (Method (''*'' @ listName g t) ''Link'' [Literal ''bool''] \<in> set (listDecls g t)
      \<longleftrightarrow> IsClass t) \<and>
   (Method (''*'' @ listName g t) ''HREF'' [Literal ''string''] \<in> set (listDecls g t)
      \<longleftrightarrow> IsClass t) \<and>
   (Method (''*'' @ listName g t) ''GetHREF'' [Literal ''string'', Literal ''bool'']
      \<in> set (listDecls g t) \<longleftrightarrow> IsClass t)"
  using kindConsts_in_listDecls [of g t] listDecls_in_structDecls [of g t]
  by (auto simp: listDecls_def Let_def kindConsts_def)

theorem list_kind_constants_unconditional_witness:
  "{Const ''ResourceReviewListKind'' ''ResourceReviewList'',
    Const ''ResourceReviewListLinkKind'' ''ResourceReviewListLink'',
    Const ''ResourceReviewListNilKind'' ''ResourceReviewListNil''}
     \<subseteq> set (fst (structDecls exampleGenerator resourceReview)) \<and>
   Method ''*ResourceReviewList'' ''Kind'' [Literal ''string'']
     \<notin> set (listDecls exampleGenerator resourceReview)"
  using list_kind_constants_unconditional [of exampleGenerator resourceReview]
  by (simp add: listName_resourceReview kindConsts_def) (simp add: resourceReview_def)

text \<open>
  C3, as it is stated, fails on the struct of the test model: it is not a class, and the
  constant \<^verbatim>\<open>ResourceReviewListKind\<close> is emitted all the same.
\<close>

theorem list_kind_constants_counterexample:
  "\<not> (Const ''ResourceReviewListKind'' ''ResourceReviewList''
        \<in> set (fst (structDecls exampleGenerator resourceReview))
      \<longleftrightarrow> IsClass resourceReview)"
proof -
  have "Const ''ResourceReviewListKind'' ''ResourceReviewList''
          \<in> set (kindConsts (listName exampleGenerator resourceReview))"
    by (simp add: listName_resourceReview kindConsts_def)
  then have "Const ''ResourceReviewListKind'' ''ResourceReviewList''
          \<in> set (fst (structDecls exampleGenerator resourceReview))"
    using kindConsts_in_listDecls listDecls_in_structDecls by blast
  moreover have "\<not> IsClass resourceReview"
    by (simp add: resourceReview_def)
  ultimately show ?thesis by simp
qed

subsection \<open>The run and its error count\<close>

text \<open>No step of the run writes the \<^verbatim>\<open>errors\<close> field of the generator.\<close>

lemma getterType_errors: "errors (snd (getterType g a)) = errors g"
  by (simp add: getterType_def split: prod.splits)

lemma fieldType_errors: "errors (snd (fieldType g a)) = errors g"
  by (simp add: fieldType_def split: prod.splits)

lemma fieldDecls_errors: "errors (snd (fieldDecls g as)) = errors g"
proof (induction as arbitrary: g)
  case Nil
  show ?case by simp
next
  case (Cons a as)
  obtain ref g1 where f: "fieldType g a = (ref, g1)" by (cases "fieldType g a")
  obtain fs g2 where r: "fieldDecls g1 as = (fs, g2)" by (cases "fieldDecls g1 as")
  have "errors g1 = errors g" using fieldType_errors [of g a] f by simp
  moreover have "errors g2 = errors g1" using Cons.IH [of g1] r by simp
  ultimately show ?case using f r by simp
qed

lemma getterDecls_errors: "errors (snd (getterDecls g recv a)) = errors g"
proof -
  obtain ref g1 where f: "getterType g a = (ref, g1)" by (cases "getterType g a")
  have "errors g1 = errors g" using getterType_errors [of g a] f by simp
  then show ?thesis using f
    by (simp add: getterDecls_def Let_def split: prod.splits)
qed

lemma gettersDecls_errors: "errors (snd (gettersDecls g recv as)) = errors g"
proof (induction as arbitrary: g)
  case Nil
  show ?case by simp
next
  case (Cons a as)
  obtain ds g1 where f: "getterDecls g recv a = (ds, g1)" by (cases "getterDecls g recv a")
  obtain es g2 where r: "gettersDecls g1 recv as = (es, g2)" by (cases "gettersDecls g1 recv as")
  have "errors g1 = errors g" using getterDecls_errors [of g recv a] f by simp
  moreover have "errors g2 = errors g1" using Cons.IH [of g1] r by simp
  ultimately show ?case using f r by simp
qed

lemma Emit_errors: "errors (Emit g ds) = errors g"
  by (simp add: Emit_def)

lemma Import_errors: "errors (Import g p a) = errors g"
  by (simp add: Import_def)

lemma objectDecls_errors: "errors (snd (objectDecls g t)) = errors g"
proof -
  obtain fs g1 where f: "fieldDecls g (Attributes t) = (fs, g1)"
    by (cases "fieldDecls g (Attributes t)")
  obtain gs g2 where r: "gettersDecls g1 (''*'' @ objectName g t) (Attributes t) = (gs, g2)"
    by (cases "gettersDecls g1 (''*'' @ objectName g t) (Attributes t)")
  have "errors g1 = errors g" using fieldDecls_errors [of g "Attributes t"] f by simp
  moreover have "errors g2 = errors g1"
    using gettersDecls_errors [of g1 "''*'' @ objectName g t" "Attributes t"] r by simp
  ultimately show ?thesis using f r by (simp add: objectDecls_def Let_def)
qed

lemma generateTypeSource_errors: "errors (generateTypeSource g t) = errors g"
proof -
  have e: "errors (generateEnumTypeSource g t) = errors g"
    by (simp add: generateEnumTypeSource_def enumDecls_def Emit_errors split: prod.splits)
  have "errors (snd (structDecls (Import g ''time'' []) t)) = errors g"
    using objectDecls_errors [of "Import g ''time'' []" t]
    by (auto simp add: structDecls_def Import_errors split: prod.splits)
  then have s: "errors (generateStructTypeSource g t) = errors g"
    by (auto simp add: generateStructTypeSource_def Emit_errors split: prod.splits)
  show ?thesis using e s by (simp add: generateTypeSource_def)
qed

lemma generateTypeFile_errors: "errors (fst (snd (generateTypeFile io g t w))) = errors g"
  by (simp add: generateTypeFile_def Let_def generateTypeSource_errors
      split: prod.splits sum.splits)

lemma generateVersionMetadataTypeFile_errors:
  "errors (fst (snd (generateVersionMetadataTypeFile io g v w))) = errors g"
  by (simp add: generateVersionMetadataTypeFile_def Let_def generateVersionMetadataTypeSource_def
      Emit_errors split: prod.splits sum.splits)

lemma runTypes_errors: "errors (fst (snd (runTypes io g ts w))) = errors g"
proof (induction ts arbitrary: g w)
  case Nil
  show ?case by simp
next
  case (Cons t ts)
  show ?case
    using generateTypeFile_errors [of io g t w] Cons.IH
    by (auto split: prod.splits option.splits)
qed

lemma runVersions_errors: "errors (fst (snd (runVersions io g vs w))) = errors g"
proof (induction vs arbitrary: g w)
  case Nil
  show ?case by simp
next
  case (Cons v vs)
  obtain e g1 w1 where m: "generateVersionMetadataTypeFile io g v w = (e, g1, w1)"
    by (cases "generateVersionMetadataTypeFile io g v w")
  obtain e2 g2 w2 where t: "runTypes io g1 (vTypes v) w1 = (e2, g2, w2)"
    by (cases "runTypes io g1 (vTypes v) w1")
  have 1: "errors g1 = errors g"
    using generateVersionMetadataTypeFile_errors [of io g v w] m by simp
  have 2: "errors g2 = errors g1" using runTypes_errors [of io g1 "vTypes v" w1] t by simp
  show ?case using m t 1 2 Cons.IH [of g2 w2]
    by (simp split: option.splits)
qed

lemma runServices_errors: "errors (fst (snd (runServices io g ss w))) = errors g"
proof (induction ss arbitrary: g w)
  case Nil
  show ?case by simp
next
  case (Cons s ss)
  obtain e g1 w1 where v: "runVersions io g (sVersions s) w = (e, g1, w1)"
    by (cases "runVersions io g (sVersions s) w")
  have 1: "errors g1 = errors g" using runVersions_errors [of io g "sVersions s" w] v by simp
  show ?case using v 1 Cons.IH [of g1 w1]
    by (simp split: option.splits)
qed

lemma example_run_succeeds:
  "fst (runServices exampleIO (exampleGenerator\<lparr>errors := 12\<rparr>) (Services exampleModel) []) = None \<and>
   fst (runServices exampleIO (exampleGenerator\<lparr>errors := 1\<rparr>) (Services exampleModel) []) = None \<and>
   fst (runServices exampleIO (exampleGenerator\<lparr>errors := 0\<rparr>) (Services exampleModel) []) = None"
  by code_simp

text \<open>
  C4. The run leaves the error count as it found it. When no step has failed, it fails
  with \<^verbatim>\<open>there were N errors\<close>, N the count in decimal, when the count is greater than
  one, with \<^verbatim>\<open>there was 1 error\<close> when it is one, and returns no error when it is zero.
\<close>

theorem Run_error_message:
  "errors (fst (snd (Run io g w))) = errors g \<and>
   (fst (runServices io g (Services (model g)) w) = None \<longrightarrow>
      fst (Run io g w) =
        (if errors g > 1 then Some (''there were '' @ fmt_d (errors g) @ '' errors'')
         else if errors g = 1 then Some ''there was 1 error''
         else None))"
proof -
  obtain e g1 w1 where r: "runServices io g (Services (model g)) w = (e, g1, w1)"
    by (cases "runServices io g (Services (model g)) w")
  have "errors g1 = errors g" using runServices_errors [of io g "Services (model g)" w] r by simp
  then show ?thesis using r by (cases e) (auto simp: Run_def)
qed

theorem Run_error_message_witness:
  "fst (Run exampleIO (exampleGenerator\<lparr>errors := 12\<rparr>) []) = Some ''there were 12 errors'' \<and>
   fst (Run exampleIO (exampleGenerator\<lparr>errors := 1\<rparr>) []) = Some ''there was 1 error'' \<and>
   fst (Run exampleIO exampleGenerator []) = None"
  using Run_error_message [of exampleIO "exampleGenerator\<lparr>errors := 12\<rparr>" "[]"]
        Run_error_message [of exampleIO "exampleGenerator\<lparr>errors := 1\<rparr>" "[]"]
        Run_error_message [of exampleIO "exampleGenerator\<lparr>errors := 0\<rparr>" "[]"]
        example_run_succeeds
  by (simp add: exampleGenerator_def fmt_d_def digits.simps)

subsection \<open>The emitted methods on a nil receiver\<close>

text \<open>
  C8. On a nil receiver every emitted accessor returns: \<^verbatim>\<open>Kind\<close> the value of the nil kind
  constant, \<^verbatim>\<open>ID\<close>, \<^verbatim>\<open>HREF\<close> and \<^verbatim>\<open>ServerVersion\<close> the empty string, \<^verbatim>\<open>Link\<close> false, a
  getter of a scalar attribute the zero value and one of a struct, list or map attribute
  nil, every probing getter its zero value and false, \<^verbatim>\<open>Len\<close> zero, \<^verbatim>\<open>Empty\<close> true,
  \<^verbatim>\<open>Get\<close> nil, and \<^verbatim>\<open>Each\<close> and \<^verbatim>\<open>Range\<close> the state they were given, whatever the
  callback.
\<close>

theorem accessors_total_on_nil:
  "Const (n @ ''NilKind'') (NilKindValue n) \<in> set (kindConsts n) \<and>
   Object_Kind n None = Some (NilKindValue n) \<and>
   Object_ID None = Some [] \<and>
   Object_GetID None = Some ([], False) \<and>
   Object_Link None = Some False \<and>
   Object_HREF None = Some [] \<and>
   Object_GetHREF None = Some ([], False) \<and>
   Object_Empty g t None = Some True \<and>
   Object_Getter rt g a None =
     Some (if byReference a then nilValue a else Val (zeroLiteral rt (aType a))) \<and>
   Object_GetGetter rt g a None =
     Some (if byReference a then nilValue a else Val (goZero rt (aType a)), False) \<and>
   List_Kind n None = NilKindValue n \<and>
   List_Link None = False \<and>
   List_HREF None = [] \<and>
   List_GetHREF None = ([], False) \<and>
   List_Len None = 0 \<and>
   List_Empty None = True \<and>
   List_Get h None i = Some None \<and>
   List_Each None f w = Some w \<and>
   List_Range None f' w = Some w \<and>
   Metadata_ServerVersion None = Some [] \<and>
   Metadata_GetServerVersion None = Some ([], False)"
  by (simp add: kindConsts_def NilKindValue_def Object_Kind_def Object_ID_def Object_GetID_def Object_Link_def Object_HREF_def
        Object_GetHREF_def Object_Empty_def Object_Getter_def Object_GetGetter_def zeroResult_def
        List_Kind_def List_Link_def List_HREF_def List_GetHREF_def List_Len_def List_Empty_def
        List_Get_def List_Each_def List_Range_def Metadata_ServerVersion_def
        Metadata_GetServerVersion_def stringOrEmpty_def stringProbe_def)

theorem accessors_total_on_nil_witness:
  "Object_Kind ''ResourceReview'' None = Some ''ResourceReviewNil'' \<and>
   Object_Getter exampleRuntime exampleGenerator (Attribute [''action''] stringType False []) None =
     Some (Val (StringVal [])) \<and>
   Object_Getter exampleRuntime exampleGenerator reviewsAttribute None = Some (ListPtr None) \<and>
   Object_GetGetter exampleRuntime exampleGenerator reviewsAttribute None =
     Some (ListPtr None, False) \<and>
   List_Get exampleHeap None 0 = Some None \<and>
   List_Each None countCalls (exampleHeap, 0) = Some (exampleHeap, 0)"
  using accessors_total_on_nil [of "''ResourceReview''" exampleGenerator resourceReview exampleRuntime
               "Attribute [''action''] stringType False []" exampleHeap 0 countCalls
               "(exampleHeap, 0)"]
        accessors_total_on_nil [of "''ResourceReview''" exampleGenerator resourceReview exampleRuntime
               reviewsAttribute exampleHeap 0 countCalls "(exampleHeap, 0)"]
  by (simp add: NilKindValue_def byReference_def nilValue_def kind_defs stringType_def
        reviewsAttribute_def reviewListType_def exampleRuntime_def)

subsection \<open>The copy that Slice returns\<close>

lemma elems_append: "validSlice h s \<Longrightarrow> elems (h @ [xs]) s = elems h s"
  by (auto simp: validSlice_def elems_def nth_append split: option.splits)

lemma length_elems:
  "validSlice h s \<Longrightarrow> length (elems h s) = sLen s"
  by (auto simp: validSlice_def elems_def split: option.splits)

lemma List_Slice_valid:
  assumes "validSlice h (items x)"
  shows "List_Slice h (Some x) =
           (\<lparr>sArray = Some (length h), sOff = 0, sLen = sLen (items x), sCap = sLen (items x)\<rparr>,
            h @ [elems h (items x)])"
proof (cases "sArray (items x)")
  case None
  then have "sLen (items x) = 0" using assms by (simp add: validSlice_def)
  then show ?thesis using None
    by (simp add: List_Slice_def go_make_def go_copy_def elems_def)
next
  case (Some a)
  then have a: "a < length h" using assms by (simp add: validSlice_def)
  have e: "elems (h @ [replicate (sLen (items x)) None]) (items x) = elems h (items x)"
    using assms by (rule elems_append)
  have l: "length (elems h (items x)) = sLen (items x)"
    using assms by (rule length_elems)
  show ?thesis
    by (simp add: List_Slice_def go_make_def go_copy_def e l)
qed

lemma elems_fresh:
  "elems (h @ [xs]) \<lparr>sArray = Some (length h), sOff = 0, sLen = length xs, sCap = c\<rparr> = xs"
  by (simp add: elems_def)

lemma elems_update_other:
  "validSlice h s \<Longrightarrow> elems ((h @ [xs])[length h := ys]) s = elems h s"
  by (auto simp: validSlice_def elems_def nth_append split: option.splits)

lemma elems_nil: "sArray s = None \<Longrightarrow> elems h s = []"
  by (simp add: elems_def)

text \<open>
  C9. \<^verbatim>\<open>Slice\<close> on a nil list returns a slice that is not nil and has length zero. On a
  list whose items are a valid slice it returns a slice that is not nil, holds the items
  of the list and leaves them as they were; and an assignment to any index of the
  returned slice succeeds, changes that element of the returned slice and leaves the
  items of the list as they were.
\<close>

theorem Slice_is_a_fresh_copy:
  "sArray (fst (List_Slice h None)) \<noteq> None \<and>
   sLen (fst (List_Slice h None)) = 0 \<and>
   elems (snd (List_Slice h None)) (fst (List_Slice h None)) = [] \<and>
   (validSlice h (items x) \<longrightarrow>
      sArray (fst (List_Slice h (Some x))) \<noteq> None \<and>
      elems (snd (List_Slice h (Some x))) (fst (List_Slice h (Some x))) = elems h (items x) \<and>
      elems (snd (List_Slice h (Some x))) (items x) = elems h (items x)) \<and>
   (validSlice h (items x) \<and> i < sLen (items x) \<longrightarrow>
      (\<exists>h'. slice_set (snd (List_Slice h (Some x))) (fst (List_Slice h (Some x))) i v = Some h' \<and>
            elems h' (fst (List_Slice h (Some x))) = (elems h (items x))[i := v] \<and>
            elems h' (items x) = elems h (items x)))"
proof -
  have nil: "sArray (fst (List_Slice h None)) \<noteq> None \<and> sLen (fst (List_Slice h None)) = 0 \<and>
    elems (snd (List_Slice h None)) (fst (List_Slice h None)) = []"
    by (simp add: List_Slice_def go_make_def elems_def)
  let ?xs = "elems h (items x)"
  let ?s = "\<lparr>sArray = Some (length h), sOff = 0, sLen = sLen (items x), sCap = sLen (items x)\<rparr>"
  have copy: "sArray (fst (List_Slice h (Some x))) \<noteq> None \<and>
      elems (snd (List_Slice h (Some x))) (fst (List_Slice h (Some x))) = ?xs \<and>
      elems (snd (List_Slice h (Some x))) (items x) = ?xs" if v: "validSlice h (items x)"
  proof -
    have eq: "List_Slice h (Some x) = (?s, h @ [?xs])" using v by (rule List_Slice_valid)
    have l: "length ?xs = sLen (items x)" using v by (rule length_elems)
    have own: "elems (h @ [?xs]) ?s = ?xs"
      using elems_fresh [of h ?xs "sLen (items x)"] l by simp
    have other: "elems (h @ [?xs]) (items x) = ?xs"
      using v by (rule elems_append)
    show ?thesis using own other by (simp add: eq)
  qed
  have upd: "\<exists>h'. slice_set (snd (List_Slice h (Some x))) (fst (List_Slice h (Some x))) i v = Some h' \<and>
            elems h' (fst (List_Slice h (Some x))) = ?xs[i := v] \<and>
            elems h' (items x) = ?xs"
    if v: "validSlice h (items x)" and i: "i < sLen (items x)"
  proof -
    have eq: "List_Slice h (Some x) = (?s, h @ [?xs])" using v by (rule List_Slice_valid)
    have l: "length ?xs = sLen (items x)" using v by (rule length_elems)
    have 1: "slice_set (h @ [?xs]) ?s i v = Some ((h @ [?xs])[length h := ?xs[i := v]])"
      using i l by (simp add: slice_set_def)
    have 2: "elems ((h @ [?xs])[length h := ?xs[i := v]]) ?s = ?xs[i := v]"
      using l by (simp add: elems_def)
    have 3: "elems ((h @ [?xs])[length h := ?xs[i := v]]) (items x) = ?xs"
      using v by (rule elems_update_other)
    show ?thesis using 1 2 3 by (simp add: eq)
  qed
  show ?thesis using nil copy upd by blast
qed

theorem Slice_is_a_fresh_copy_witness:
  "validSlice exampleHeap (items exampleList) \<and>
   fst (List_Slice exampleHeap (Some exampleList)) =
     \<lparr>sArray = Some 1, sOff = 0, sLen = 2, sCap = 2\<rparr> \<and>
   elems (snd (List_Slice exampleHeap (Some exampleList)))
     (fst (List_Slice exampleHeap (Some exampleList))) = [Some 2, Some 3] \<and>
   (\<exists>h'. slice_set (snd (List_Slice exampleHeap (Some exampleList)))
            (fst (List_Slice exampleHeap (Some exampleList))) 0 None = Some h' \<and>
         elems h' (fst (List_Slice exampleHeap (Some exampleList))) = [None, Some 3] \<and>
         elems h' (items exampleList) = [Some 2, Some 3])"
proof -
  have v: "validSlice exampleHeap (items exampleList)"
    by (simp add: validSlice_def exampleHeap_def exampleList_def)
  have e: "elems exampleHeap (items exampleList) = [Some 2, Some 3]"
    by (simp add: elems_def exampleHeap_def exampleList_def)
  have l: "(0::nat) < sLen (items exampleList)"
    by (simp add: exampleList_def)
  have s: "fst (List_Slice exampleHeap (Some exampleList)) =
     \<lparr>sArray = Some 1, sOff = 0, sLen = 2, sCap = 2\<rparr>"
    by (simp add: List_Slice_def go_make_def exampleHeap_def exampleList_def split: prod.splits)
  show ?thesis
    using Slice_is_a_fresh_copy [of exampleHeap exampleList 0 None] v l s by (simp add: e)
qed

subsection \<open>The emptiness of a struct\<close>

text \<open>
  C2 does not hold of the emitted \<^verbatim>\<open>Empty\<close>: the template has a conjunct for a scalar, a
  list and a map attribute and none for a struct attribute. For the struct with one
  struct attribute, the object with that attribute set is empty for \<^verbatim>\<open>Empty\<close>, and not
  empty in the sense of the specification.
\<close>

theorem Empty_ignores_struct_attribute:
  "Object_Empty exampleGenerator accessReview (Some accessReviewObject) = Some True \<and>
   \<not> specEmpty (Some accessReviewObject)"
  by (simp add: Object_Empty_def emptyTerms_def emptyTerm_def accessReview_def
        accessReviewObject_def resourceReview_def kind_defs specEmpty_def fieldIsEmpty_def)


subsection \<open>The server adapter: paths that nothing answers\<close>
















lemma located_deep_foo:
  "located (serve rootResource MyTestRootServer
     \<lparr>verb = GET, path = ''/clusters/123/foo'', query = []\<rparr>) =
     [(''clusters'', None), (''cluster'', Some ''123'')]"
  by code_simp



subsection \<open>The server adapter: the envelope of a list\<close>

text \<open>
  C6. When the query of a \<^verbatim>\<open>List\<close> request parses and the implementation returns a
  response and no error, the answer is 200 with the envelope of page, size, total and
  items, in which page and size are those of the response object as the implementation
  left it, whatever the query said.
\<close>

theorem List_envelope_echoes_response:
  "parseListQuery (query req) = Some request \<and>
   impl route ListM request emptyResponse = Inr r \<longrightarrow>
     invoke impl route ListM req =
       \<lparr>answer = \<lparr>status = 200,
                   body = Some (JObject [(''page'', JInt (respPage r)), (''size'', JInt (respSize r)),
                                         (''total'', JInt (respTotal r)),
                                         (''items'', JArray (respItems r))])\<rparr>,
        calls = [(route, ListM)]\<rparr>"
  by (simp add: invoke_def processList_def listEnvelope_def)


theorem List_envelope_echoes_response_witness:
  "invoke MyTestRootServer
     [(''clusters'', None), (''cluster'', Some ''123''), (''identity_providers'', None)] ListM
     \<lparr>verb = GET, path = ''/clusters/123/identity_providers'',
      query = [(''page'', ''5''), (''size'', ''7'')]\<rparr> =
     \<lparr>answer =
        \<lparr>status = 200,
         body = Some (JObject [(''page'', JInt 1), (''size'', JInt 1), (''total'', JInt 1),
                               (''items'',
                                JArray [named ''IdentityProvider''
                                          ''test-list-identity-providers''])])\<rparr>,
      calls = [([(''clusters'', None), (''cluster'', Some ''123''),
                 (''identity_providers'', None)], ListM)]\<rparr> \<and>
   invoke MyTestRootServer [(''clusters'', None)] ListM
     \<lparr>verb = GET, path = ''/clusters'', query = []\<rparr> =
     \<lparr>answer =
        \<lparr>status = 200,
         body = Some (JObject [(''page'', JInt 0), (''size'', JInt 0), (''total'', JInt 1),
                               (''items'', JArray [named ''Cluster'' ''test-list-clusters''])])\<rparr>,
      calls = [([(''clusters'', None)], ListM)]\<rparr>"
  using List_envelope_echoes_response
          [of "\<lparr>verb = GET, path = ''/clusters/123/identity_providers'',
                query = [(''page'', ''5''), (''size'', ''7'')]\<rparr>"
              "\<lparr>reqPage = 5, reqSize = 7\<rparr>" MyTestRootServer
              "[(''clusters'', None), (''cluster'', Some ''123''), (''identity_providers'', None)]"
              "\<lparr>respPage = 1, respSize = 1, respTotal = 1,
                respItems = [named ''IdentityProvider'' ''test-list-identity-providers''],
                respBody = None\<rparr>"]
        List_envelope_echoes_response
          [of "\<lparr>verb = GET, path = ''/clusters'', query = []\<rparr>"
              "\<lparr>reqPage = 0, reqSize = 0\<rparr>" MyTestRootServer "[(''clusters'', None)]"
              "\<lparr>respPage = 0, respSize = 0, respTotal = 1,
                respItems = [named ''Cluster'' ''test-list-clusters''], respBody = None\<rparr>"]
  by (simp add: parseListQuery_def queryInt_def parseInt_def digitValue_def MyTestRootServer_def
        MyTestIdentityProvidersServer_List_def MyTestClustersServer_List_def emptyResponse_def)

subsection \<open>The tests of the server, on the model\<close>

text \<open>
  The requests of the server tests and the answers the tests expect: the status
  of each, and the body where the test compares it.
\<close>

lemma server_tests:
  "status (reply (serve rootResource MyTestRootServer
     \<lparr>verb = GET, path = ''/clusters'', query = []\<rparr>)) = 200"
  "status (reply (serve rootResource MyTestRootServer
     \<lparr>verb = GET, path = ''/clusters/'', query = []\<rparr>)) = 404"
  "status (reply (serve rootResource MyTestRootServer
     \<lparr>verb = GET, path = ''/foo'', query = []\<rparr>)) = 404"
  "reply (serve rootResource MyTestRootServer
     \<lparr>verb = GET, path = ''/clusters'', query = []\<rparr>) =
     \<lparr>status = 200,
      body = Some (JObject [(''page'', JInt 0), (''size'', JInt 0), (''total'', JInt 1),
                            (''items'', JArray [named ''Cluster'' ''test-list-clusters''])])\<rparr>"
  "reply (serve rootResource MyTestRootServer
     \<lparr>verb = GET, path = ''/clusters'', query = [(''page'', ''2'')]\<rparr>) =
     \<lparr>status = 200,
      body = Some (JObject [(''page'', JInt 2), (''size'', JInt 0), (''total'', JInt 1),
                            (''items'', JArray [named ''Cluster'' ''test-list-clusters''])])\<rparr>"
  "reply (serve rootResource MyTestRootServer
     \<lparr>verb = GET, path = ''/clusters'', query = [(''size'', ''2'')]\<rparr>) =
     \<lparr>status = 200,
      body = Some (JObject [(''page'', JInt 0), (''size'', JInt 2), (''total'', JInt 1),
                            (''items'', JArray [named ''Cluster'' ''test-list-clusters''])])\<rparr>"
  "reply (serve rootResource MyTestRootServer
     \<lparr>verb = GET, path = ''/clusters'', query = [(''size'', ''2''), (''page'', ''1'')]\<rparr>) =
     \<lparr>status = 200,
      body = Some (JObject [(''page'', JInt 1), (''size'', JInt 2), (''total'', JInt 1),
                            (''items'', JArray [named ''Cluster'' ''test-list-clusters''])])\<rparr>"
  "reply (serve rootResource MyTestRootServer
     \<lparr>verb = GET, path = ''/clusters/123'', query = []\<rparr>) =
     \<lparr>status = 200, body = Some (named ''Cluster'' ''test-get-cluster-by-id'')\<rparr>"
  "reply (serve rootResource MyTestRootServer
     \<lparr>verb = GET, path = ''/clusters/123/identity_providers'', query = []\<rparr>) =
     \<lparr>status = 200,
      body = Some (JObject [(''page'', JInt 1), (''size'', JInt 1), (''total'', JInt 1),
                            (''items'',
                             JArray [named ''IdentityProvider''
                                       ''test-list-identity-providers''])])\<rparr>"
  "status (reply (serve rootResource MyTestRootServer
     \<lparr>verb = GET, path = ''/clusters/123/foo'', query = []\<rparr>)) = 404"
  by code_simp+

end
